theory Spec2Isabelle
  imports Complex_Main
begin

section \<open>Data model (core/types.ts)\<close>

text \<open>
  JavaScript numbers are modelled as rationals: every constant of the module is a short
  decimal, and the functions below only add, subtract, multiply, divide, compare, take
  \<open>Math.min\<close>, \<open>Math.round\<close> (round half up, which is \<^const>\<open>round\<close>) and
  \<open>Math.floor\<close>. A \<open>THREE.Vector3\<close> is a triple.

  The model computes exactly where the code computes in IEEE 754 doubles. The two agree
  whenever the operands and results are representable, which is the case for the times used
  in the statements below (whole and half seconds, whole milliseconds). They can differ in
  the last place elsewhere, and then \<open>Math.round\<close> and \<open>Math.floor\<close> can differ by one at
  a boundary: at 0.105 s into a 3 s shot the exact \<open>t * 100\<close> is 3.5 and rounds to 4, while
  the doubles give a value just below 3.5 and 3; at 4.1 s the exact frame number is 123,
  that of the doubles 122. Nothing below is stated about \<open>progress\<close>, a frame number or an
  interpolated position at such a time.
\<close>

type_synonym vec3 = "rat \<times> rat \<times> rat"

datatype deliverable_type = VIDEO_PLATE | VFX_ELEMENT | METADATA

record DeliverableSpec =
  del_id :: string
  filename :: string
  del_type :: deliverable_type
  del_duration :: "rat option"
  description :: string
  shotId :: "string option"

record ShotCamera =
  lens :: rat
  posStart :: vec3
  posEnd :: vec3
  lookAt :: vec3

record ShotSpec =
  shot_id :: string
  slug :: string
  duration :: rat
  shot_camera :: ShotCamera

record ParticlePreset =
  p_count :: nat
  p_size :: rat
  p_speed :: rat

record ScenePreset =
  background :: nat
  fogDensity :: rat
  particles :: string

definition SHIMMER :: ParticlePreset where
  "SHIMMER = \<lparr>p_count = 8000, p_size = 5 / 100, p_speed = 5 / 100\<rparr>"

definition PARTICLE_PRESETS :: "(string \<times> ParticlePreset) list" where
  "PARTICLE_PRESETS =
    [(''SHIMMER'', SHIMMER),
     (''DUST'', \<lparr>p_count = 2000, p_size = 2 / 100, p_speed = 1 / 100\<rparr>),
     (''STARS'', \<lparr>p_count = 500, p_size = 8 / 100, p_speed = 1 / 1000\<rparr>),
     (''DENSE_FOG'', \<lparr>p_count = 15000, p_size = 3 / 100, p_speed = 2 / 100\<rparr>)]"

definition SCENE_PRESETS :: "(string \<times> ScenePreset) list" where
  "SCENE_PRESETS =
    [(''VOID_ABSTRACT'', \<lparr>background = 0, fogDensity = 5 / 100, particles = ''SHIMMER''\<rparr>),
     (''DAWN_EXTERIOR'', \<lparr>background = 8900331, fogDensity = 12 / 1000, particles = ''DUST''\<rparr>),
     (''NIGHT_INTERIOR'', \<lparr>background = 330261, fogDensity = 8 / 100, particles = ''DENSE_FOG''\<rparr>)]"

section \<open>The AOB production module (modules/aob-void.tsx)\<close>

subsection \<open>Deliverables and shots\<close>

definition DELIVERABLES :: "DeliverableSpec list" where
  "DELIVERABLES =
    [\<lparr>del_id = ''del_01'', filename = ''AOB_SEQ01_S01_SH01_PLATE_v001.webm'',
      del_type = VIDEO_PLATE, del_duration = None, description = ''BLACK HOLD'',
      shotId = Some ''SH01''\<rparr>,
     \<lparr>del_id = ''del_02'', filename = ''AOB_SEQ01_S01_SH02_PLATE_v001.webm'',
      del_type = VIDEO_PLATE, del_duration = None, description = ''SHIMMER EMERGE'',
      shotId = Some ''SH02''\<rparr>,
     \<lparr>del_id = ''del_03'', filename = ''AOB_SEQ01_S01_SH03_PLATE_v001.webm'',
      del_type = VIDEO_PLATE, del_duration = None, description = ''ABSTRACT DENSITY'',
      shotId = Some ''SH03''\<rparr>,
     \<lparr>del_id = ''del_04'', filename = ''AOB_PTC_SHIMMER_01_v001.webm'',
      del_type = VFX_ELEMENT, del_duration = None, description = ''Particle Pass (12s)'',
      shotId = None\<rparr>,
     \<lparr>del_id = ''del_05'', filename = ''AOB_SEQ01_CAM_DATA.json'',
      del_type = METADATA, del_duration = None, description = ''Camera Tracking JSON'',
      shotId = None\<rparr>,
     \<lparr>del_id = ''del_06'', filename = ''AOB_SEQ01_PARTICLES.json'',
      del_type = METADATA, del_duration = None,
      description = ''Particle Positions for Polishing/Post'', shotId = None\<rparr>]"

definition SHOT_SPECS :: "ShotSpec list" where
  "SHOT_SPECS =
    [\<lparr>shot_id = ''SH01'', slug = ''SH01'', duration = 3,
      shot_camera = \<lparr>lens = 50, posStart = (0, 0, 5), posEnd = (0, 0, 0), lookAt = (0, 0, 0)\<rparr>\<rparr>,
     \<lparr>shot_id = ''SH02'', slug = ''SH02'', duration = 12,
      shot_camera = \<lparr>lens = 35, posStart = (0, 0, 6), posEnd = (0, 0, 0), lookAt = (0, 0, 0)\<rparr>\<rparr>,
     \<lparr>shot_id = ''SH03'', slug = ''SH03'', duration = 20,
      shot_camera = \<lparr>lens = 28, posStart = (0, 3 / 2, 5), posEnd = (0, 8 / 10, 0),
                     lookAt = (0, 8 / 10, 0)\<rparr>\<rparr>]"

subsection \<open>Camera, particle system, context\<close>

text \<open>
  The camera is the engine's \<open>THREE.PerspectiveCamera\<close>. Its orientation is kept as the pair
  (eye position, target) of the last \<open>lookAt\<close> call, from which three.js computes the
  rotation; the projection matrix, a cache of \<open>fov\<close>, is left out.
\<close>

record Camera =
  position :: vec3
  fov :: rat
  rotation :: "vec3 \<times> vec3"

definition camera_lookAt :: "vec3 \<Rightarrow> Camera \<Rightarrow> Camera" where
  "camera_lookAt target cam = cam\<lparr>rotation := (position cam, target)\<rparr>"

text \<open>\<open>Vector3.lerpVectors(v1, v2, alpha)\<close> of three.js: \<open>v1 + (v2 - v1) * alpha\<close>, per component.\<close>

fun lerpVectors :: "vec3 \<Rightarrow> vec3 \<Rightarrow> rat \<Rightarrow> vec3" where
  "lerpVectors (x1, y1, z1) (x2, y2, z2) alpha =
     (x1 + (x2 - x1) * alpha, y1 + (y2 - y1) * alpha, z1 + (z2 - z1) * alpha)"

text \<open>
  The particle system: its rotation about y, the scalar of its \<open>color\<close> uniform (the
  material is always the shader material that \<open>createParticleSystem\<close> builds, so
  \<open>setOpacity\<close> takes its first branch), and the point positions.
\<close>

record ParticleSystem =
  rotation_y :: rat
  colorScalar :: rat
  positions :: "vec3 list"

record Sample =
  s_shotId :: string
  s_frame :: int
  s_time :: rat
  s_pos :: vec3
  s_rot :: "vec3 \<times> vec3"
  s_fov :: rat

datatype batch_status = IDLE | PROCESSING | COMPLETE

record Batch =
  active :: bool
  index :: nat
  status :: batch_status

text \<open>
  The module context. \<open>onSignal\<close> is \<open>None\<close> for \<open>null\<close> and otherwise names the
  context object that the installed closure captured. \<open>particleSystem\<close> is never null:
  \<open>init\<close> and \<open>switchScenePreset\<close> always store one, so the guards
  \<open>if (ctx.particleSystem)\<close> are always taken.
\<close>

record Context =
  camera :: Camera
  particleSystem :: ParticleSystem
  activeShotId :: "string option"
  isPlaying :: bool
  startTime :: rat
  progress :: int
  trackingData :: "Sample list"
  batch :: Batch
  onSignal :: "nat option"
  preset :: ParticlePreset
  activeScenePreset :: string

subsection \<open>Effects a module function issues\<close>

datatype camera_mode = Orbit | Scripted

datatype payload =
    ParticleExport string nat string "vec3 list"
  | CameraExport string "Sample list"

text \<open>
  Calls that leave the module, in the order the code makes them. \<open>OnUpdate\<close> is
  \<open>onUpdate({...ctx})\<close>; in every function below it is the last statement of its branch, so
  the copy it publishes is the context the function returns. \<open>SetTimeoutOnUpdate ms\<close> is
  \<open>setTimeout(() => onUpdate({...ctx}), ms)\<close>, whose copy is taken when the timer fires.
  \<open>Signal k\<close> is the call \<open>ctx.onSignal()\<close> of the closure \<open>k\<close>.
\<close>

datatype action =
    StartRecording string
  | StopRecording
  | SaveJSON string payload
  | SetCameraMode camera_mode
  | OnUpdate
  | SetTimeoutOnUpdate nat
  | Signal nat

subsection \<open>init\<close>

definition createParticleSystem :: "string \<Rightarrow> vec3 list \<Rightarrow> ParticleSystem \<times> ParticlePreset" where
  "createParticleSystem presetName pts =
     (let pr = (case map_of PARTICLE_PRESETS presetName of
                  Some p \<Rightarrow> p
                | None \<Rightarrow> SHIMMER)
      in (\<lparr>rotation_y = 0, colorScalar = 1, positions = pts\<rparr>, pr))"

text \<open>
  \<open>init\<close> positions the engine camera and builds the context; \<open>pts\<close> are the random
  points that \<open>createParticleSystem\<close> draws.
\<close>

definition init :: "Camera \<Rightarrow> vec3 list \<Rightarrow> Context" where
  "init cam pts =
     (let cam1 = camera_lookAt (0, 0, 0) (cam\<lparr>position := (0, 2, 10)\<rparr>);
          cam2 = cam1\<lparr>fov := 45\<rparr>;
          (system, pr) = createParticleSystem ''SHIMMER'' pts
      in \<lparr>camera = cam2, particleSystem = system, activeShotId = None, isPlaying = False,
          startTime = 0, progress = 0, trackingData = [],
          batch = \<lparr>active = False, index = 0, status = IDLE\<rparr>,
          onSignal = None, preset = pr, activeScenePreset = ''VOID_ABSTRACT''\<rparr>)"

subsection \<open>update\<close>

definition setOpacity :: "rat \<Rightarrow> Context \<Rightarrow> Context" where
  "setOpacity val ctx = ctx\<lparr>particleSystem := (particleSystem ctx)\<lparr>colorScalar := val\<rparr>\<rparr>"

definition set_rotation_y :: "rat \<Rightarrow> Context \<Rightarrow> Context" where
  "set_rotation_y r ctx = ctx\<lparr>particleSystem := (particleSystem ctx)\<lparr>rotation_y := r\<rparr>\<rparr>"

text \<open>JavaScript truthiness of \<open>ctx.activeShotId\<close>: neither \<open>null\<close> nor the empty string.\<close>

definition truthy :: "string option \<Rightarrow> bool" where
  "truthy v = (case v of None \<Rightarrow> False | Some s \<Rightarrow> s \<noteq> [])"

text \<open>Lines 163--182: interpolation of the camera along the shot and the tracking sample.\<close>

definition interpolate :: "ShotSpec \<Rightarrow> rat \<Rightarrow> rat \<Rightarrow> Context \<Rightarrow> Context" where
  "interpolate shot elapsed t ctx =
     (let cam1 = (camera ctx)\<lparr>position :=
                    lerpVectors (posStart (shot_camera shot)) (posEnd (shot_camera shot)) t\<rparr>;
          cam2 = camera_lookAt (lookAt (shot_camera shot)) cam1;
          c1 = ctx\<lparr>camera := cam2\<rparr>;
          c2 = (if shot_id shot = ''SH02'' then setOpacity (t * (8 / 10)) c1 else c1)
      in if active (batch c2)
         then c2\<lparr>trackingData := trackingData c2 @
                [\<lparr>s_shotId = shot_id shot, s_frame = \<lfloor>elapsed * 30\<rfloor>, s_time = elapsed,
                  s_pos = position (camera c2), s_rot = rotation (camera c2),
                  s_fov = fov (camera c2)\<rparr>]\<rparr>
         else c2)"

text \<open>Lines 153--189: the playback branch; \<open>now\<close> is the value of \<open>performance.now()\<close>.\<close>

definition playback :: "rat \<Rightarrow> Context \<Rightarrow> Context \<times> action list" where
  "playback now ctx =
     (if isPlaying ctx \<and> truthy (activeShotId ctx) then
        (let shot = find (\<lambda>s. Some (shot_id s) = activeShotId ctx) SHOT_SPECS;
             isVFX = (activeShotId ctx = Some ''VFX_PASS'');
             dur = (if isVFX then 12 else (case shot of Some s \<Rightarrow> duration s | None \<Rightarrow> 0))
         in if dur > 0 then
              (let elapsed = (now - startTime ctx) / 1000;
                   t = min (elapsed / dur) 1;
                   c1 = ctx\<lparr>progress := round (t * 100)\<rparr>;
                   c2 = (case shot of
                           Some s \<Rightarrow> if \<not> isVFX then interpolate s elapsed t c1 else c1
                         | None \<Rightarrow> c1)
               in if t \<ge> 1
                  then (c2\<lparr>isPlaying := False\<rparr>,
                        (case onSignal c2 of Some k \<Rightarrow> [Signal k] | None \<Rightarrow> []))
                  else (c2, []))
            else (ctx, []))
      else (ctx, []))"

text \<open>Lines 132--151: the particle animation that every frame performs.\<close>

definition animateParticles :: "Context \<Rightarrow> rat \<Rightarrow> Context" where
  "animateParticles ctx time =
     (let c1 = set_rotation_y (time * p_speed (preset ctx)) ctx
      in if activeShotId c1 = Some ''SH01'' then setOpacity (1 / 10) c1
         else if activeShotId c1 = Some ''SH03''
         then set_rotation_y (time * (p_speed (preset c1) * 2)) (setOpacity (8 / 10) c1)
         else c1)"

text \<open>Lines 131--190: the per-frame update, called as \<open>update(ctx, time, delta)\<close>.\<close>

definition update :: "rat \<Rightarrow> Context \<Rightarrow> rat \<Rightarrow> rat \<Rightarrow> Context \<times> action list" where
  "update now ctx time delta = playback now (animateParticles ctx time)"

subsection \<open>The UI: batch reconciliation effect, startBatch, playPreview, switchScenePreset\<close>

text \<open>\<open>String.prototype.includes\<close>: the pattern occurs as a contiguous substring.\<close>

fun str_includes :: "string \<Rightarrow> string \<Rightarrow> bool" where
  "str_includes [] pat = (pat = [])"
| "str_includes (c # cs) pat = (take (length pat) (c # cs) = pat \<or> str_includes cs pat)"

text \<open>Array indexing \<open>list[i]\<close>: \<open>undefined\<close> (here \<open>None\<close>) past the end.\<close>

definition at_index :: "'a list \<Rightarrow> nat \<Rightarrow> 'a option" where
  "at_index xs i = (if i < length xs then Some (xs ! i) else None)"

definition advance :: "Context \<Rightarrow> Context" where
  "advance ctx = ctx\<lparr>batch := (batch ctx)\<lparr>index := index (batch ctx) + 1\<rparr>\<rparr>"

text \<open>Lines 243--260: the per-type set-up of a recording job.\<close>

definition setupJob :: "ShotSpec list \<Rightarrow> DeliverableSpec \<Rightarrow> Context \<Rightarrow> Context" where
  "setupJob shots job ctx =
     (if del_type job = VIDEO_PLATE then
        (case find (\<lambda>s. Some (shot_id s) = shotId job) shots of
           Some shot \<Rightarrow>
             (let cam1 = (camera ctx)\<lparr>fov := lens (shot_camera shot)\<rparr>;
                  cam2 = cam1\<lparr>position := posStart (shot_camera shot)\<rparr>;
                  cam3 = camera_lookAt (lookAt (shot_camera shot)) cam2
              in ctx\<lparr>activeShotId := Some (shot_id shot), camera := cam3\<rparr>)
         | None \<Rightarrow> ctx)
      else if del_type job = VFX_ELEMENT then
        (let cam1 = (camera ctx)\<lparr>position := (0, 0, 10)\<rparr>;
             cam2 = camera_lookAt (0, 0, 0) cam1
         in setOpacity 1 (ctx\<lparr>activeShotId := Some ''VFX_PASS'', camera := cam2\<rparr>))
      else ctx)"

text \<open>Lines 220--241: a metadata job writes its JSON file at once.\<close>

definition metadataPayload :: "DeliverableSpec \<Rightarrow> Context \<Rightarrow> payload" where
  "metadataPayload job ctx =
     (if str_includes (filename job) ''PARTICLES''
      then ParticleExport ''AOB_VOID_V1'' (length (positions (particleSystem ctx)))
             (activeScenePreset ctx) (positions (particleSystem ctx))
      else CameraExport ''AOB_VOID_V1'' (trackingData ctx))"

text \<open>
  Lines 200--267: the body of the reconciliation effect, over the deliverable list and the
  shot list that the module closes over; \<open>isRecording\<close> is \<open>engineAPI.isRecording\<close> as
  the render that scheduled the effect saw it, \<open>now\<close> is \<open>performance.now()\<close>.
\<close>

definition reconcile ::
  "DeliverableSpec list \<Rightarrow> ShotSpec list \<Rightarrow> bool \<Rightarrow> rat \<Rightarrow> Context \<Rightarrow> Context \<times> action list" where
  "reconcile dels shots isRecording now ctx =
     (if \<not> active (batch ctx) then (ctx, [])
      else if status (batch ctx) = COMPLETE then (ctx, [])
      else case at_index dels (index (batch ctx)) of
        None \<Rightarrow> (ctx\<lparr>batch := (batch ctx)\<lparr>status := COMPLETE, active := False\<rparr>\<rparr>, [OnUpdate])
      | Some job \<Rightarrow>
          if \<not> isPlaying ctx \<and> isRecording
          then (advance ctx, [StopRecording, SetTimeoutOnUpdate 500])
          else if \<not> isPlaying ctx \<and> \<not> isRecording \<and> status (batch ctx) = PROCESSING
          then (if del_type job = METADATA
                then (advance ctx, [SaveJSON (filename job) (metadataPayload job ctx), OnUpdate])
                else ((setupJob shots job ctx)\<lparr>startTime := now, isPlaying := True\<rparr>,
                      [StartRecording (filename job), OnUpdate]))
          else (ctx, []))"

definition batchEffect :: "bool \<Rightarrow> rat \<Rightarrow> Context \<Rightarrow> Context \<times> action list" where
  "batchEffect = reconcile DELIVERABLES SHOT_SPECS"

definition startBatch :: "Context \<Rightarrow> Context \<times> action list" where
  "startBatch ctx =
     (ctx\<lparr>trackingData := [], batch := \<lparr>active = True, index = 0, status = PROCESSING\<rparr>\<rparr>,
      [SetCameraMode Scripted, OnUpdate])"

definition playPreview :: "rat \<Rightarrow> string \<Rightarrow> Context \<Rightarrow> Context \<times> action list" where
  "playPreview now sid ctx =
     (case find (\<lambda>s. shot_id s = sid) SHOT_SPECS of
        None \<Rightarrow> (ctx, [])
      | Some shot \<Rightarrow>
          (let c1 = ctx\<lparr>activeShotId := Some sid, isPlaying := True, startTime := now\<rparr>;
               cam1 = (camera c1)\<lparr>fov := lens (shot_camera shot)\<rparr>;
               cam2 = cam1\<lparr>position := posStart (shot_camera shot)\<rparr>;
               cam3 = camera_lookAt (lookAt (shot_camera shot)) cam2
           in (c1\<lparr>camera := cam3\<rparr>, [SetCameraMode Scripted, OnUpdate])))"

definition switchScenePreset :: "string \<Rightarrow> vec3 list \<Rightarrow> Context \<Rightarrow> Context \<times> action list" where
  "switchScenePreset presetKey pts ctx =
     (case map_of SCENE_PRESETS presetKey of
        None \<Rightarrow> (ctx, [])
      | Some config \<Rightarrow>
          (let (system, pr) = createParticleSystem (particles config) pts
           in (ctx\<lparr>particleSystem := system, preset := pr, activeScenePreset := presetKey\<rparr>,
               [OnUpdate])))"

subsection \<open>Sequences of module operations\<close>

text \<open>
  Everything that can change a context once \<open>init\<close> has returned: a frame of the render
  loop, a run of the reconciliation effect, and the three UI handlers.
\<close>

datatype op =
    OpUpdate rat rat rat
  | OpReconcile bool rat
  | OpStartBatch
  | OpPlayPreview rat string
  | OpSwitchScenePreset string "vec3 list"

fun apply_op :: "op \<Rightarrow> Context \<Rightarrow> Context \<times> action list" where
  "apply_op (OpUpdate now time delta) ctx = update now ctx time delta"
| "apply_op (OpReconcile recording now) ctx = batchEffect recording now ctx"
| "apply_op OpStartBatch ctx = startBatch ctx"
| "apply_op (OpPlayPreview now sid) ctx = playPreview now sid ctx"
| "apply_op (OpSwitchScenePreset presetKey pts) ctx = switchScenePreset presetKey pts ctx"

fun run_ops :: "Context \<Rightarrow> op list \<Rightarrow> Context \<times> action list" where
  "run_ops ctx [] = (ctx, [])"
| "run_ops ctx (x # xs) =
     (let (c1, a1) = apply_op x ctx; (c2, a2) = run_ops c1 xs in (c2, a1 @ a2))"

text \<open>Consecutive frames of the render loop, each given as (now, time, delta).\<close>

definition frames :: "Context \<Rightarrow> (rat \<times> rat \<times> rat) list \<Rightarrow> Context \<times> action list" where
  "frames ctx fs = run_ops ctx (map (\<lambda>(now, time, delta). OpUpdate now time delta) fs)"

section \<open>The engine capability surface (index.tsx, engineAPI)\<close>

text \<open>
  The refs and the state that the recording functions touch. \<open>recorders\<close> lists every
  \<open>MediaRecorder\<close> created so far with its \<open>state\<close>; \<open>recorderRef\<close> indexes the one that
  \<open>recorderRef.current\<close> holds. \<open>chunks\<close> are the sizes of the blobs in
  \<open>chunksRef.current\<close>. \<open>pendingStop\<close> are the recorders whose \<open>stop\<close> event has been
  queued and not yet delivered, \<open>downloads\<close> the files offered so far.
\<close>

datatype recorder_state = Inactive | Recording | Paused

record Engine =
  hasRenderer :: bool
  isRecording :: bool
  recorders :: "recorder_state list"
  recorderRef :: "nat option"
  chunks :: "nat list"
  recordingName :: string
  pendingStop :: "nat list"
  downloads :: "(string \<times> nat list) list"
  console :: "string list"

text \<open>How the browser answers \<open>new MediaRecorder(...)\<close> and \<open>rec.start()\<close>.\<close>

datatype capture = CaptureOk | ConstructorThrows | StartThrows

definition startRecording :: "capture \<Rightarrow> string \<Rightarrow> Engine \<Rightarrow> Engine" where
  "startRecording cap name e =
     (if \<not> hasRenderer e then e
      else let e1 = e\<lparr>recordingName := name\<rparr> in
        (case cap of
           ConstructorThrows \<Rightarrow> e1\<lparr>console := console e1 @ [''Recording error'']\<rparr>
         | StartThrows \<Rightarrow> e1\<lparr>chunks := [], console := console e1 @ [''Recording error'']\<rparr>
         | CaptureOk \<Rightarrow>
             e1\<lparr>chunks := [], recorders := recorders e1 @ [Recording],
                recorderRef := Some (length (recorders e1)), isRecording := True\<rparr>))"

text \<open>\<open>recorderRef.current?.state === 'recording'\<close>\<close>

definition recordingInProgress :: "Engine \<Rightarrow> bool" where
  "recordingInProgress e =
     (case recorderRef e of
        None \<Rightarrow> False
      | Some r \<Rightarrow> at_index (recorders e) r = Some Recording)"

text \<open>
  \<open>MediaRecorder.stop()\<close> makes the recorder inactive and queues its \<open>dataavailable\<close> and
  \<open>stop\<close> events.
\<close>

definition stopRecording :: "Engine \<Rightarrow> Engine" where
  "stopRecording e =
     (case recorderRef e of
        None \<Rightarrow> e
      | Some r \<Rightarrow>
          if at_index (recorders e) r = Some Recording
          then e\<lparr>recorders := (recorders e)[r := Inactive], pendingStop := pendingStop e @ [r]\<rparr>
          else e)"

text \<open>The handlers \<open>rec.ondataavailable\<close> and \<open>rec.onstop\<close> installed by \<open>startRecording\<close>.\<close>

definition ondataavailable :: "nat \<Rightarrow> Engine \<Rightarrow> Engine" where
  "ondataavailable sz e = (if sz > 0 then e\<lparr>chunks := chunks e @ [sz]\<rparr> else e)"

definition onstop :: "Engine \<Rightarrow> Engine" where
  "onstop e = e\<lparr>downloads := downloads e @ [(recordingName e, chunks e)], isRecording := False\<rparr>"

text \<open>
  Delivery of the oldest queued completion: the final \<open>dataavailable\<close> event with \<open>sz\<close>
  bytes, then the \<open>stop\<close> event. Nothing happens when none is queued.
\<close>

definition deliverStop :: "nat \<Rightarrow> Engine \<Rightarrow> Engine" where
  "deliverStop sz e =
     (case pendingStop e of
        [] \<Rightarrow> e
      | r # rs \<Rightarrow> onstop (ondataavailable sz (e\<lparr>pendingStop := rs\<rparr>)))"

section \<open>Invariants and test data used in the statements\<close>

text \<open>The camera that the shell creates (index.tsx, line 134), looking down the negative z axis.\<close>

definition engineCamera :: Camera where
  "engineCamera = \<lparr>position = (0, 0, 0), fov = 60, rotation = ((0, 0, 0), (0, 0, -1))\<rparr>"

text \<open>The batch cursor never passes the end of the list, and sits on it once the batch is complete.\<close>

definition batch_inv :: "Context \<Rightarrow> bool" where
  "batch_inv c =
     (index (batch c) \<le> length DELIVERABLES \<and>
      (status (batch c) = COMPLETE \<longrightarrow> index (batch c) = length DELIVERABLES))"

text \<open>A freshly initialised context in which the UI has installed its signal and the
  operator has pressed PREVIEW on the first shot at time 1000 ms.\<close>

definition playingSH01 :: Context where
  "playingSH01 = fst (playPreview 1000 ''SH01'' ((init engineCamera [])\<lparr>onSignal := Some 0\<rparr>))"

text \<open>Every tracking sample belongs to one of the three authored shots.\<close>

definition real_samples :: "Context \<Rightarrow> bool" where
  "real_samples c = (\<forall>s \<in> set (trackingData c). s_shotId s \<in> {''SH01'', ''SH02'', ''SH03''})"

text \<open>A context whose batch cursor stands on the VFX element, after the reconciliation effect
  has dispatched that job at time 1000 ms.\<close>

definition vfxPlaying :: Context where
  "vfxPlaying =
     fst (batchEffect False 1000
            ((init engineCamera [])\<lparr>batch := \<lparr>active = True, index = 3, status = PROCESSING\<rparr>\<rparr>))"

text \<open>The first frame of a batch: start, dispatch of the first plate at time 0, one frame at 1.5 s.\<close>

definition firstFrameOps :: "op list" where
  "firstFrameOps = [OpStartBatch, OpReconcile False 0, OpUpdate 1500 1 1]"

definition firstSample :: Sample where
  "firstSample =
     \<lparr>s_shotId = ''SH01'', s_frame = 45, s_time = 3 / 2, s_pos = (0, 0, 5 / 2),
      s_rot = ((0, 0, 5 / 2), (0, 0, 0)), s_fov = 50\<rparr>"

text \<open>A video plate whose shot identifier names no Shot Spec.\<close>

definition orphanPlate :: DeliverableSpec where
  "orphanPlate =
     \<lparr>del_id = ''del_99'', filename = ''AOB_SEQ01_S01_SH99_PLATE_v001.webm'',
      del_type = VIDEO_PLATE, del_duration = None, description = ''NO SUCH SHOT'',
      shotId = Some ''SH99''\<rparr>"

text \<open>An engine with a renderer and nothing recorded yet.\<close>

definition engine0 :: Engine where
  "engine0 =
     \<lparr>hasRenderer = True, isRecording = False, recorders = [], recorderRef = None, chunks = [],
      recordingName = ''video.webm'', pendingStop = [], downloads = [], console = []\<rparr>"

text \<open>One possible course of a whole batch, as the operations that the context sees.\<close>

definition fullBatchOps :: "op list" where
  "fullBatchOps =
     [OpStartBatch,
      OpReconcile False 0, OpUpdate 3000 3 1, OpReconcile True 3000,
      OpReconcile False 3100, OpUpdate 15100 15 1, OpReconcile True 15100,
      OpReconcile False 15200, OpUpdate 35200 35 1, OpReconcile True 35200,
      OpReconcile False 35300, OpUpdate 47300 47 1, OpReconcile True 47300,
      OpReconcile False 47400, OpReconcile False 47400, OpReconcile False 47400]"

text \<open>A fresh context on which START has been pressed.\<close>

definition batchStarted :: Context where
  "batchStarted = fst (startBatch (init engineCamera []))"

text \<open>The context after the reconciliation effect has dispatched the orphan plate.\<close>

definition orphanPlaying :: Context where
  "orphanPlaying = fst (reconcile [orphanPlate] SHOT_SPECS False 250 batchStarted)"

text \<open>The context at the end of that batch.\<close>

definition batchDone :: Context where
  "batchDone = fst (run_ops (init engineCamera []) fullBatchOps)"

text \<open>An engine on which one recording has been started.\<close>

definition engineRecording :: Engine where
  "engineRecording = startRecording CaptureOk ''AOB_SEQ01_S01_SH01_PLATE_v001.webm'' engine0"

section \<open>The application shell (index.tsx)\<close>

subsection \<open>Module contract and shell state\<close>

text \<open>
  A scene module as the shell sees it (\<open>SceneModule\<close> of core/types.ts). The world \<open>'w\<close> is
  everything module code can reach: the scene, the camera, the context objects. \<open>init\<close>
  returns the new context; \<open>update\<close> and \<open>dispose\<close> may throw, which the last component
  of their result records, and \<open>update\<close> may pass a context to \<open>onUpdate\<close> (as the AOB
  module does through \<open>ctx.onSignal\<close>).
\<close>

record ('c, 'w) SceneModule =
  m_id :: string
  m_init :: "'w \<Rightarrow> 'c \<times> 'w"
  m_update :: "'c \<Rightarrow> rat \<Rightarrow> rat \<Rightarrow> 'w \<Rightarrow> 'w \<times> 'c option \<times> bool"
  m_dispose :: "'c \<Rightarrow> 'w \<Rightarrow> 'w \<times> bool"

text \<open>
  What the shell does, in order. The number is the serial of the \<open>init\<close> call that made
  the context concerned: a copy \<open>{...ctx}\<close> keeps the serial of the context it copies.
\<close>

datatype shell_event =
    ContextInvalidated
  | DisposeCalled nat
  | DisposeErrorLogged
  | SceneReset
  | InitCalled nat
  | InitFailed
  | UpdateCalled nat
  | LoopErrorLogged
  | Rendered

text \<open>
  The state of \<open>VirtualStudio\<close>. \<open>mounted\<close>: \<open>sceneRef\<close>, \<open>cameraRef\<close> and
  \<open>rendererRef\<close> are set. \<open>activeModule\<close> and \<open>moduleContext\<close> are the React state,
  \<open>contextRef\<close> the ref that the render loop reads. \<open>renderedModule\<close> and
  \<open>renderedContext\<close> are the dependencies with which the two effects last ran.
  \<open>loopModule\<close>, \<open>running\<close> and \<open>frameRequested\<close> belong to the closure of the current
  render loop: the module it captured, its flag, and whether \<open>requestAnimationFrame\<close> has
  its callback queued. \<open>inits\<close> counts the \<open>init\<close> calls that have returned.
\<close>

record ('c, 'w) Shell =
  mounted :: bool
  activeModule :: "('c, 'w) SceneModule option"
  moduleContext :: "(nat \<times> 'c) option"
  contextRef :: "(nat \<times> 'c) option"
  renderedModule :: "string option"
  renderedContext :: "(nat \<times> 'c) option"
  loopModule :: "('c, 'w) SceneModule option"
  running :: bool
  frameRequested :: bool
  inits :: nat
  world :: 'w
  trace :: "shell_event list"

text \<open>The shell once its set-up effects have run: no module, the render loop already going.\<close>

definition mountedShell :: "'w \<Rightarrow> ('c, 'w) Shell" where
  "mountedShell w =
     \<lparr>mounted = True, activeModule = None, moduleContext = None, contextRef = None,
      renderedModule = None, renderedContext = None, loopModule = None, running = True,
      frameRequested = True, inits = 0, world = w, trace = []\<rparr>"

definition logged :: "shell_event list \<Rightarrow> ('c, 'w) Shell \<Rightarrow> ('c, 'w) Shell" where
  "logged evs s = s\<lparr>trace := trace s @ evs\<rparr>"

subsection \<open>loadModule\<close>

text \<open>
  Lines 102--108: dispose of the previous module, inside \<open>try\<close>/\<open>catch\<close>. \<open>res\<close> is what
  the call of \<open>dispose\<close> on the context with serial \<open>k\<close> did: the world it left, and
  whether it threw.
\<close>

definition disposeResult :: "nat \<Rightarrow> 'w \<times> bool \<Rightarrow> ('c, 'w) Shell \<Rightarrow> ('c, 'w) Shell" where
  "disposeResult k res s =
     (if snd res
      then logged [DisposeCalled k, DisposeErrorLogged] (s\<lparr>world := fst res\<rparr>)
      else logged [DisposeCalled k] (s\<lparr>world := fst res\<rparr>))"

definition disposePrevious :: "('c, 'w) Shell \<Rightarrow> ('c, 'w) Shell" where
  "disposePrevious s =
     (case activeModule s of
        None \<Rightarrow> s
      | Some am \<Rightarrow>
          (case moduleContext s of
             None \<Rightarrow> s
           | Some h \<Rightarrow> disposeResult (fst h) (m_dispose am (snd h) (world s)) s))"

text \<open>
  Lines 116--119: \<open>res\<close> is what \<open>init\<close> returned, the new context and the world; the
  context and the module are published.
\<close>

definition publishInit ::
  "('c, 'w) SceneModule \<Rightarrow> 'c \<times> 'w \<Rightarrow> ('c, 'w) Shell \<Rightarrow> ('c, 'w) Shell" where
  "publishInit m res s =
     (logged [InitCalled (inits s)] s)
       \<lparr>world := snd res, inits := inits s + 1, moduleContext := Some (inits s, fst res),
        activeModule := Some m\<rparr>"

definition initModule :: "('c, 'w) SceneModule \<Rightarrow> ('c, 'w) Shell \<Rightarrow> ('c, 'w) Shell" where
  "initModule m s = publishInit m (m_init m (world s)) s"

text \<open>Lines 95--120, when \<open>init\<close> returns.\<close>

definition loadModule :: "('c, 'w) SceneModule \<Rightarrow> ('c, 'w) Shell \<Rightarrow> ('c, 'w) Shell" where
  "loadModule m s =
     (if \<not> mounted s then s
      else initModule m
             (logged [SceneReset]
                (disposePrevious (logged [ContextInvalidated] (s\<lparr>contextRef := None\<rparr>)))))"

text \<open>
  Lines 95--117, when \<open>init\<close> throws. The call on line 117 stands outside any \<open>try\<close>, so
  the exception leaves \<open>loadModule\<close>: lines 118 and 119 are not reached, and
  \<open>activeModule\<close> and \<open>moduleContext\<close> stay on the module and the context that have
  just been disposed of. \<open>w\<close> is the world that the failed \<open>init\<close> left.
\<close>

definition loadModuleInitThrows :: "'w \<Rightarrow> ('c, 'w) Shell \<Rightarrow> ('c, 'w) Shell" where
  "loadModuleInitThrows w s =
     (if \<not> mounted s then s
      else logged [InitFailed]
             ((logged [SceneReset]
                (disposePrevious (logged [ContextInvalidated] (s\<lparr>contextRef := None\<rparr>))))
              \<lparr>world := w\<rparr>))"

subsection \<open>The render loop\<close>

text \<open>
  Lines 203--208: \<open>res\<close> is what the call of \<open>update\<close> on the context with serial \<open>k\<close>
  did: the world it left, the context it passed to \<open>onUpdate\<close> if any (which becomes the
  module context), and whether it threw.
\<close>

definition updateResult ::
  "nat \<Rightarrow> 'w \<times> 'c option \<times> bool \<Rightarrow> ('c, 'w) Shell \<Rightarrow> ('c, 'w) Shell" where
  "updateResult k res s =
     (if snd (snd res)
      then (logged [UpdateCalled k, LoopErrorLogged] s)
             \<lparr>world := fst res,
              moduleContext := (case fst (snd res) of
                                  None \<Rightarrow> moduleContext s
                                | Some c' \<Rightarrow> Some (k, c')),
              running := False\<rparr>
      else (logged [UpdateCalled k] s)
             \<lparr>world := fst res,
              moduleContext := (case fst (snd res) of
                                  None \<Rightarrow> moduleContext s
                                | Some c' \<Rightarrow> Some (k, c'))\<rparr>)"

text \<open>Lines 201--209: the guarded call of \<open>update\<close>.\<close>

definition updateActive :: "rat \<Rightarrow> rat \<Rightarrow> ('c, 'w) Shell \<Rightarrow> ('c, 'w) Shell" where
  "updateActive time delta s =
     (case loopModule s of
        None \<Rightarrow> s
      | Some m \<Rightarrow>
          (case contextRef s of
             None \<Rightarrow> s
           | Some h \<Rightarrow> updateResult (fst h) (m_update m (snd h) time delta (world s)) s))"

text \<open>
  Lines 194--213: one call of \<open>loop\<close> with the clock readings \<open>time\<close> and \<open>delta\<close>. The
  next frame is requested before \<open>update\<close> is called.
\<close>

definition loopFrame :: "rat \<Rightarrow> rat \<Rightarrow> ('c, 'w) Shell \<Rightarrow> ('c, 'w) Shell" where
  "loopFrame time delta s =
     (if \<not> running s then s\<lparr>frameRequested := False\<rparr>
      else logged [Rendered] (updateActive time delta (s\<lparr>frameRequested := True\<rparr>)))"

subsection \<open>Effects of a render\<close>

text \<open>
  Line 40 and lines 188--217. After a render whose \<open>moduleContext\<close> differs from the last
  one, \<open>contextRef\<close> takes it. After a render whose \<open>activeModule\<close> differs, the old loop is
  stopped and a new one is created, which captures the module and calls \<open>loop\<close> once at
  clock time 0. Modules are compared by identity, which is their identifier.
\<close>

definition contextEffect :: "('c, 'w) Shell \<Rightarrow> ('c, 'w) Shell" where
  "contextEffect s =
     (if moduleContext s \<noteq> renderedContext s
      then s\<lparr>contextRef := moduleContext s, renderedContext := moduleContext s\<rparr>
      else s)"

definition loopEffect :: "('c, 'w) Shell \<Rightarrow> ('c, 'w) Shell" where
  "loopEffect s =
     (if map_option m_id (activeModule s) \<noteq> renderedModule s
      then (if mounted s
            then loopFrame 0 0
                   (s\<lparr>renderedModule := map_option m_id (activeModule s),
                      loopModule := activeModule s, running := True\<rparr>)
            else s\<lparr>renderedModule := map_option m_id (activeModule s), running := False\<rparr>)
      else s)"

definition commitShell :: "('c, 'w) Shell \<Rightarrow> ('c, 'w) Shell" where
  "commitShell s = loopEffect (contextEffect s)"

subsection \<open>What happens to the shell\<close>

text \<open>
  \<open>setModuleContext\<close> is what module UIs receive as \<open>onUpdate\<close> (line 256). It takes any
  context: the shell does not check that it belongs to the active module.
\<close>

definition setModuleContext :: "nat \<times> 'c \<Rightarrow> ('c, 'w) Shell \<Rightarrow> ('c, 'w) Shell" where
  "setModuleContext h s = s\<lparr>moduleContext := Some h\<rparr>"

text \<open>
  \<open>Load m\<close>: a click on the button of module \<open>m\<close>, whose \<open>init\<close> returns.
  \<open>LoadInitThrows w\<close>: such a click on a module whose \<open>init\<close> throws, leaving the world
  \<open>w\<close>. \<open>Frame time delta\<close>: the browser runs the queued animation frame.
  \<open>Publish h\<close>: some code that holds \<open>onUpdate\<close> calls it with the context \<open>h\<close>. Each
  is followed by the render that React performs before the next event.
\<close>

datatype ('c, 'w) shell_op =
    Load "('c, 'w) SceneModule"
  | LoadInitThrows 'w
  | Frame rat rat
  | Publish "nat \<times> 'c"

fun shell_step :: "('c, 'w) shell_op \<Rightarrow> ('c, 'w) Shell \<Rightarrow> ('c, 'w) Shell" where
  "shell_step (Load m) s = commitShell (loadModule m s)"
| "shell_step (LoadInitThrows w) s = commitShell (loadModuleInitThrows w s)"
| "shell_step (Frame time delta) s = commitShell (loopFrame time delta s)"
| "shell_step (Publish h) s = commitShell (setModuleContext h s)"

fun shell_run :: "('c, 'w) shell_op list \<Rightarrow> ('c, 'w) Shell \<Rightarrow> ('c, 'w) Shell" where
  "shell_run [] s = s"
| "shell_run (x # xs) s = shell_run xs (shell_step x s)"

text \<open>The serials of the contexts on which the shell has called \<open>dispose\<close> and \<open>update\<close>.\<close>

fun disposals :: "shell_event list \<Rightarrow> nat list" where
  "disposals [] = []"
| "disposals (DisposeCalled k # es) = k # disposals es"
| "disposals (e # es) = disposals es"

fun updates :: "shell_event list \<Rightarrow> nat list" where
  "updates [] = []"
| "updates (UpdateCalled k # es) = k # updates es"
| "updates (e # es) = updates es"

fun is_Load :: "('c, 'w) shell_op \<Rightarrow> bool" where
  "is_Load (Load m) = True"
| "is_Load x = False"

text \<open>
  The events of undisturbed use: loads whose \<open>init\<close> returns, and frames. They publish
  only contexts of the active module.
\<close>

fun routine :: "('c, 'w) shell_op \<Rightarrow> bool" where
  "routine (Load m) = True"
| "routine (Frame time delta) = True"
| "routine x = False"

subsection \<open>Notions used in the statements about the shell\<close>

text \<open>The world in which \<open>loadModule\<close> calls \<open>init\<close>: the one that \<open>dispose\<close> left.\<close>

definition worldAfterDispose :: "('c, 'w) Shell \<Rightarrow> 'w" where
  "worldAfterDispose s =
     (case (activeModule s, moduleContext s) of
        (Some am, Some (k, c)) \<Rightarrow> fst (m_dispose am c (world s))
      | _ \<Rightarrow> world s)"

text \<open>The render loop was created for the module that is active now.\<close>

definition loopCurrent :: "('c, 'w) Shell \<Rightarrow> bool" where
  "loopCurrent s = (renderedModule s = map_option m_id (activeModule s))"

text \<open>
  After \<open>n\<close> loads: \<open>n\<close> contexts made, all but the last disposed of once and in order, the
  last one published.
\<close>

definition loaded :: "nat \<Rightarrow> ('c, 'w) Shell \<Rightarrow> bool" where
  "loaded n s =
     (mounted s \<and> inits s = n \<and> disposals (trace s) = [0..<n - 1] \<and>
      (if n = 0 then activeModule s = None \<and> moduleContext s = None \<and> contextRef s = None
       else activeModule s \<noteq> None \<and> map_option fst (moduleContext s) = Some (n - 1) \<and>
            (contextRef s = None \<or> map_option fst (contextRef s) = Some (n - 1))))"

text \<open>
  Two modules over a world that only counts: one that behaves, and one whose \<open>update\<close>
  throws once the clock has passed 5 and whose \<open>dispose\<close> throws.
\<close>

definition plainModule :: "(nat, nat) SceneModule" where
  "plainModule =
     \<lparr>m_id = ''PLAIN'', m_init = (\<lambda>w. (w, w + 1)),
      m_update = (\<lambda>c time delta w. (w + 1, None, False)),
      m_dispose = (\<lambda>c w. (w, False))\<rparr>"

definition fragileModule :: "(nat, nat) SceneModule" where
  "fragileModule =
     \<lparr>m_id = ''FRAGILE'', m_init = (\<lambda>w. (w, w + 1)),
      m_update = (\<lambda>c time delta w. (w, None, 5 < time)),
      m_dispose = (\<lambda>c w. (w, True))\<rparr>"

text \<open>
  Three clicks, the second on a module whose \<open>init\<close> throws: the plain module is loaded,
  the failed load disposes of its context, and the third click disposes of it again.
\<close>

definition failedLoad :: "(nat, nat) shell_op list" where
  "failedLoad = [Load plainModule, Frame 1 1, LoadInitThrows 5, Load plainModule]"

text \<open>The shell with the fragile module loaded, and the same after its update has thrown.\<close>

definition fragileLoaded :: "(nat, nat) Shell" where
  "fragileLoaded = shell_step (Load fragileModule) (mountedShell 0)"

definition fragileCrashed :: "(nat, nat) Shell" where
  "fragileCrashed = shell_step (Frame 6 1) fragileLoaded"

section \<open>The AOB module running in the shell\<close>

subsection \<open>Context objects\<close>

text \<open>
  The module code mutates its context in place, and the UI publishes shallow copies
  \<open>{...ctx}\<close> of it. A copy has its own top-level fields and shares the objects they refer
  to: the camera (the engine's), the batch record, the tracking array and the particle
  system. So a context object holds the values of the primitive fields and the references
  to the shared objects, which live in the world.
\<close>

record AobObject =
  o_activeShotId :: "string option"
  o_isPlaying :: bool
  o_startTime :: rat
  o_progress :: int
  o_onSignal :: "nat option"
  o_trackingData :: nat
  o_batch :: nat
  o_particleSystem :: nat
  o_preset :: ParticlePreset
  o_activeScenePreset :: string

text \<open>
  The world: \<open>clock\<close> is \<open>performance.now()\<close>, \<open>calls\<close> the calls made on the engine
  API, \<open>browserCapture\<close> how this browser's \<open>MediaRecorder\<close> behaves.
\<close>

record World =
  clock :: rat
  theCamera :: Camera
  objects :: "AobObject list"
  batches :: "Batch list"
  arrays :: "Sample list list"
  systems :: "ParticleSystem list"
  engine :: Engine
  calls :: "action list"
  browserCapture :: capture

text \<open>The context that the module functions see when they are handed the object \<open>r\<close>.\<close>

definition viewObject :: "World \<Rightarrow> AobObject \<Rightarrow> Context" where
  "viewObject w obj =
     \<lparr>camera = theCamera w,
      particleSystem = systems w ! o_particleSystem obj,
      activeShotId = o_activeShotId obj,
      isPlaying = o_isPlaying obj,
      startTime = o_startTime obj,
      progress = o_progress obj,
      trackingData = arrays w ! o_trackingData obj,
      batch = batches w ! o_batch obj,
      onSignal = o_onSignal obj,
      preset = o_preset obj,
      activeScenePreset = o_activeScenePreset obj\<rparr>"

definition viewContext :: "World \<Rightarrow> nat \<Rightarrow> Context" where
  "viewContext w r = viewObject w (objects w ! r)"

text \<open>
  Writing back what a module function did to the object \<open>r\<close>: assignments to primitive
  fields go to the object, mutations of shared objects go to those objects.
\<close>

definition storeObject :: "nat \<Rightarrow> AobObject \<Rightarrow> Context \<Rightarrow> World \<Rightarrow> World" where
  "storeObject r obj c w =
     w\<lparr>theCamera := camera c,
       systems := (systems w)[o_particleSystem obj := particleSystem c],
       arrays := (arrays w)[o_trackingData obj := trackingData c],
       batches := (batches w)[o_batch obj := batch c],
       objects := (objects w)[r := obj\<lparr>o_activeShotId := activeShotId c,
                                         o_isPlaying := isPlaying c,
                                         o_startTime := startTime c,
                                         o_progress := progress c,
                                         o_onSignal := onSignal c,
                                         o_preset := preset c,
                                         o_activeScenePreset := activeScenePreset c\<rparr>]\<rparr>"

definition storeContext :: "nat \<Rightarrow> Context \<Rightarrow> World \<Rightarrow> World" where
  "storeContext r c w = storeObject r (objects w ! r) c w"

text \<open>\<open>{...ctx}\<close>: a new object with the same fields. Returns the world and the new reference.\<close>

definition copyObject :: "nat \<Rightarrow> World \<Rightarrow> World \<times> nat" where
  "copyObject r w = (w\<lparr>objects := objects w @ [objects w ! r]\<rparr>, length (objects w))"

subsection \<open>The module as the shell sees it\<close>

text \<open>\<open>init\<close>: the objects that \<open>init\<close> creates are allocated, the camera is the engine's.\<close>

definition allocContext :: "Context \<Rightarrow> World \<Rightarrow> nat \<times> World" where
  "allocContext c w =
     (length (objects w),
      w\<lparr>theCamera := camera c,
        systems := systems w @ [particleSystem c],
        arrays := arrays w @ [trackingData c],
        batches := batches w @ [batch c],
        objects := objects w @
          [\<lparr>o_activeShotId = activeShotId c, o_isPlaying = isPlaying c,
            o_startTime = startTime c, o_progress = progress c, o_onSignal = onSignal c,
            o_trackingData = length (arrays w), o_batch = length (batches w),
            o_particleSystem = length (systems w), o_preset = preset c,
            o_activeScenePreset = activeScenePreset c\<rparr>]\<rparr>)"

definition aobInit :: "vec3 list \<Rightarrow> World \<Rightarrow> nat \<times> World" where
  "aobInit pts w = allocContext (init (theCamera w) pts) w"

text \<open>
  \<open>update\<close>: the closure that \<open>ctx.onSignal\<close> holds publishes a copy of the object it
  captured.
\<close>

fun signalled :: "action list \<Rightarrow> nat option" where
  "signalled [] = None"
| "signalled (Signal k # as) = Some k"
| "signalled (a # as) = signalled as"

definition publishSignal :: "nat option \<Rightarrow> World \<Rightarrow> World \<times> nat option \<times> bool" where
  "publishSignal sig w =
     (case sig of
        None \<Rightarrow> (w, None, False)
      | Some k \<Rightarrow> (fst (copyObject k w), Some (snd (copyObject k w)), False))"

definition afterUpdate :: "nat \<Rightarrow> Context \<times> action list \<Rightarrow> World \<Rightarrow> World \<times> nat option \<times> bool" where
  "afterUpdate r res w = publishSignal (signalled (snd res)) (storeContext r (fst res) w)"

definition aobUpdate :: "nat \<Rightarrow> rat \<Rightarrow> rat \<Rightarrow> World \<Rightarrow> World \<times> nat option \<times> bool" where
  "aobUpdate r time delta w = afterUpdate r (update (clock w) (viewContext w r) time delta) w"

text \<open>\<open>dispose\<close> clears the scene, which is not part of this world.\<close>

definition aobDispose :: "nat \<Rightarrow> World \<Rightarrow> World \<times> bool" where
  "aobDispose r w = (w, False)"

definition AOBVoidModule :: "vec3 list \<Rightarrow> (nat, World) SceneModule" where
  "AOBVoidModule pts =
     \<lparr>m_id = ''AOB_VOID_V1'', m_init = aobInit pts, m_update = aobUpdate,
      m_dispose = aobDispose\<rparr>"

subsection \<open>The module's UI component and the pending callbacks\<close>

text \<open>
  \<open>uiContext\<close> is the \<open>ctx\<close> prop with which the UI last rendered (serial and object),
  \<open>None\<close> while it is not mounted; \<open>batchDeps\<close> are the dependencies with which the
  reconciliation effect last ran. \<open>timers\<close> are the pending \<open>setTimeout\<close> callbacks: when
  each is due and the context its closure captured.
\<close>

record System =
  shell :: "(nat, World) Shell"
  uiContext :: "(nat \<times> nat) option"
  batchDeps :: "(bool \<times> nat \<times> bool \<times> bool) option"
  timers :: "(rat \<times> nat \<times> nat) list"

definition sysWorld :: "System \<Rightarrow> World" where
  "sysWorld s = world (shell s)"

definition withWorld :: "World \<Rightarrow> System \<Rightarrow> System" where
  "withWorld w s = s\<lparr>shell := (shell s)\<lparr>world := w\<rparr>\<rparr>"

definition called :: "action \<Rightarrow> World \<Rightarrow> World" where
  "called a w = w\<lparr>calls := calls w @ [a]\<rparr>"

text \<open>\<open>onUpdate({...ctx})\<close> for the context \<open>(k, r)\<close>: \<open>setModuleContext\<close> of a fresh copy.\<close>

definition publishCopy :: "nat \<times> nat \<Rightarrow> System \<Rightarrow> System" where
  "publishCopy h s =
     s\<lparr>shell := (shell s)\<lparr>world := fst (copyObject (snd h) (sysWorld s)),
                           moduleContext := Some (fst h, snd (copyObject (snd h) (sysWorld s)))\<rparr>\<rparr>"

text \<open>What a call issued by the UI code for its context \<open>h\<close> does.\<close>

fun perform :: "nat \<times> nat \<Rightarrow> action \<Rightarrow> System \<Rightarrow> System" where
  "perform h (StartRecording name) s =
     withWorld (called (StartRecording name)
       ((sysWorld s)\<lparr>engine := startRecording (browserCapture (sysWorld s)) name
                                   (engine (sysWorld s))\<rparr>)) s"
| "perform h StopRecording s =
     withWorld (called StopRecording
       ((sysWorld s)\<lparr>engine := stopRecording (engine (sysWorld s))\<rparr>)) s"
| "perform h (SaveJSON name p) s = withWorld (called (SaveJSON name p) (sysWorld s)) s"
| "perform h (SetCameraMode mode) s = withWorld (called (SetCameraMode mode) (sysWorld s)) s"
| "perform h OnUpdate s = publishCopy h s"
| "perform h (SetTimeoutOnUpdate ms) s =
     s\<lparr>timers := timers s @ [(clock (sysWorld s) + of_nat ms, h)]\<rparr>"
| "perform h (Signal k) s = s"

fun performAll :: "nat \<times> nat \<Rightarrow> action list \<Rightarrow> System \<Rightarrow> System" where
  "performAll h [] s = s"
| "performAll h (a # as) s = performAll h as (perform h a s)"

text \<open>
  A UI function applied to the context \<open>h\<close>: it works on the object, then its calls are
  carried out.
\<close>

definition applyUi :: "nat \<times> nat \<Rightarrow> Context \<times> action list \<Rightarrow> System \<Rightarrow> System" where
  "applyUi h res s = performAll h (snd res) (withWorld (storeContext (snd h) (fst res) (sysWorld s)) s)"

text \<open>
  Lines 195--198: the signal effect, with dependencies \<open>[ctx, onUpdate]\<close>. Its clean-up
  clears \<open>onSignal\<close> on the context of the previous render, then the closure over the new
  context is installed on it.
\<close>

definition setOnSignal :: "nat \<Rightarrow> nat option \<Rightarrow> World \<Rightarrow> World" where
  "setOnSignal r v w = w\<lparr>objects := (objects w)[r := (objects w ! r)\<lparr>o_onSignal := v\<rparr>]\<rparr>"

definition cleanupSignal :: "System \<Rightarrow> System" where
  "cleanupSignal s =
     (case uiContext s of
        None \<Rightarrow> s
      | Some (k, r) \<Rightarrow> withWorld (setOnSignal r None (sysWorld s)) s)"

definition signalEffect :: "nat \<times> nat \<Rightarrow> System \<Rightarrow> System" where
  "signalEffect h s =
     (if uiContext s = Some h then s
      else (withWorld (setOnSignal (snd h) (Some (snd h)) (sysWorld (cleanupSignal s)))
              (cleanupSignal s))\<lparr>uiContext := Some h\<rparr>)"

text \<open>
  Lines 200--267: the reconciliation effect, with the dependencies
  \<open>[ctx.batch.active, ctx.batch.index, ctx.isPlaying, engineAPI.isRecording]\<close> as the
  render evaluated them; \<open>recording\<close> is that render's \<open>engineAPI.isRecording\<close>.
\<close>

definition depsOf :: "bool \<Rightarrow> Context \<Rightarrow> bool \<times> nat \<times> bool \<times> bool" where
  "depsOf recording c = (active (batch c), index (batch c), isPlaying c, recording)"

definition reconcileEffect :: "nat \<times> nat \<Rightarrow> bool \<Rightarrow> Context \<Rightarrow> System \<Rightarrow> System" where
  "reconcileEffect h recording rendered s =
     (if batchDeps s = Some (depsOf recording rendered) then s
      else applyUi h (batchEffect recording (clock (sysWorld s)) (viewContext (sysWorld s) (snd h)))
             (s\<lparr>batchDeps := Some (depsOf recording rendered)\<rparr>))"

text \<open>
  One render of the UI and its effects. The shell renders the UI when a module is active
  and a context is published (line 255); otherwise the UI is unmounted and its clean-up
  runs.
\<close>

definition uiRender :: "System \<Rightarrow> System" where
  "uiRender s =
     (case activeModule (shell s) of
        None \<Rightarrow> (cleanupSignal s)\<lparr>uiContext := None, batchDeps := None\<rparr>
      | Some m \<Rightarrow>
          (case moduleContext (shell s) of
             None \<Rightarrow> (cleanupSignal s)\<lparr>uiContext := None, batchDeps := None\<rparr>
           | Some h \<Rightarrow>
               reconcileEffect h (isRecording (engine (sysWorld s)))
                 (viewContext (sysWorld s) (snd h)) (signalEffect h s)))"

text \<open>The effects of the shell run after those of the UI, its child.\<close>

definition shellEffects :: "System \<Rightarrow> System" where
  "shellEffects s = s\<lparr>shell := commitShell (shell s)\<rparr>"

text \<open>
  The React state of \<open>VirtualStudio\<close>: the active module (compared by identity), the
  module context and \<open>isRecording\<close>. React renders again only when a setter was given a
  value that differs from the current one.
\<close>

definition renderState :: "System \<Rightarrow> string option \<times> (nat \<times> nat) option \<times> bool" where
  "renderState s =
     (map_option m_id (activeModule (shell s)), moduleContext (shell s),
      isRecording (engine (sysWorld s)))"

text \<open>One render of the application: the effects of the UI, then those of the shell.\<close>

definition renderOnce :: "System \<Rightarrow> System" where
  "renderOnce s = shellEffects (uiRender s)"

text \<open>
  \<open>s\<close> is what the effects of a render of the state \<open>st\<close> left. When they set no state
  nothing more happens; otherwise React renders again. It gives up after 50 nested
  updates, which is \<open>None\<close> here.
\<close>

fun settle :: "nat \<Rightarrow> string option \<times> (nat \<times> nat) option \<times> bool \<Rightarrow> System \<Rightarrow> System option" where
  "settle 0 st s = (if renderState s = st then Some s else None)"
| "settle (Suc n) st s =
     (if renderState s = st then Some s else settle n (renderState s) (renderOnce s))"

definition NESTED_UPDATE_LIMIT :: nat where
  "NESTED_UPDATE_LIMIT = 50"

text \<open>What follows an event handler that turned the state \<open>prev\<close> into \<open>s\<close>.\<close>

definition rerender :: "System \<Rightarrow> System \<Rightarrow> System option" where
  "rerender prev s =
     (if renderState s = renderState prev then Some s
      else settle NESTED_UPDATE_LIMIT (renderState s) (renderOnce s))"

subsection \<open>Events\<close>

text \<open>
  What the browser delivers: a click on the module's button in the header, a click on START
  AUTOMATED DELIVERY, an animation frame with the loop clock's readings, the oldest pending
  timer, the completion of a stopped recorder with the size of its last blob, and the
  passing of time.
\<close>

datatype sys_event =
    ClickModule
  | ClickStartBatch
  | AnimationFrame rat rat
  | TimerFires
  | RecorderStopped nat
  | TimePasses rat

text \<open>
  Lines 269--276. The button is disabled while the batch is active. \<open>ctx.trackingData = []\<close>
  makes the object refer to a new array.
\<close>

definition freshArray :: "nat \<Rightarrow> World \<Rightarrow> World" where
  "freshArray r w =
     w\<lparr>arrays := arrays w @ [[]],
       objects := (objects w)[r := (objects w ! r)\<lparr>o_trackingData := length (arrays w)\<rparr>]\<rparr>"

definition clickStartBatch :: "System \<Rightarrow> System" where
  "clickStartBatch s =
     (case uiContext s of
        None \<Rightarrow> s
      | Some h \<Rightarrow>
          if active (batch (viewContext (sysWorld s) (snd h))) then s
          else applyUi h (startBatch (viewContext (freshArray (snd h) (sysWorld s)) (snd h)))
                 (withWorld (freshArray (snd h) (sysWorld s)) s))"

definition timerFires :: "System \<Rightarrow> System" where
  "timerFires s =
     (case timers s of
        [] \<Rightarrow> s
      | (due, h) # ts \<Rightarrow>
          if due \<le> clock (sysWorld s) then publishCopy h (s\<lparr>timers := ts\<rparr>) else s)"

definition recorderStopped :: "nat \<Rightarrow> System \<Rightarrow> System" where
  "recorderStopped sz s =
     withWorld ((sysWorld s)\<lparr>engine := deliverStop sz (engine (sysWorld s))\<rparr>) s"

definition timePasses :: "rat \<Rightarrow> System \<Rightarrow> System" where
  "timePasses now s = withWorld ((sysWorld s)\<lparr>clock := max now (clock (sysWorld s))\<rparr>) s"

fun handle :: "vec3 list \<Rightarrow> sys_event \<Rightarrow> System \<Rightarrow> System" where
  "handle pts ClickModule s = s\<lparr>shell := loadModule (AOBVoidModule pts) (shell s)\<rparr>"
| "handle pts ClickStartBatch s = clickStartBatch s"
| "handle pts (AnimationFrame time delta) s = s\<lparr>shell := loopFrame time delta (shell s)\<rparr>"
| "handle pts TimerFires s = timerFires s"
| "handle pts (RecorderStopped sz) s = recorderStopped sz s"
| "handle pts (TimePasses now) s = timePasses now s"

definition sys_step :: "vec3 list \<Rightarrow> sys_event \<Rightarrow> System \<Rightarrow> System option" where
  "sys_step pts e s = rerender s (handle pts e s)"

fun sys_run :: "vec3 list \<Rightarrow> sys_event list \<Rightarrow> System \<Rightarrow> System option" where
  "sys_run pts [] s = Some s"
| "sys_run pts (e # es) s =
     (case sys_step pts e s of None \<Rightarrow> None | Some s1 \<Rightarrow> sys_run pts es s1)"

text \<open>The application after mounting: nothing loaded, a working recorder, time 0.\<close>

definition world0 :: World where
  "world0 =
     \<lparr>clock = 0, theCamera = engineCamera, objects = [], batches = [], arrays = [],
      systems = [], engine = engine0, calls = [], browserCapture = CaptureOk\<rparr>"

definition bootSystem :: System where
  "bootSystem = \<lparr>shell = mountedShell world0, uiContext = None, batchDeps = None, timers = []\<rparr>"

text \<open>
  Simulated time: at each instant the clock is advanced, a recorder that was stopped
  delivers its completion, a timer that is due fires, and a frame is drawn.
\<close>

definition tick :: "rat \<Rightarrow> sys_event list" where
  "tick now = [TimePasses now, RecorderStopped 1, TimerFires, AnimationFrame (now / 1000) (1 / 60)]"

definition ticks :: "rat list \<Rightarrow> sys_event list" where
  "ticks nows = concat (map tick nows)"

subsection \<open>Scenarios\<close>

text \<open>The engine calls by name, with the file name where there is one.\<close>

fun callLabel :: "action \<Rightarrow> string \<times> string" where
  "callLabel (StartRecording name) = (''startRecording'', name)"
| "callLabel StopRecording = (''stopRecording'', [])"
| "callLabel (SaveJSON name p) = (''saveJSON'', name)"
| "callLabel (SetCameraMode mode) = (''setCameraMode'', [])"
| "callLabel a = ([], [])"

text \<open>One minute of simulated time, in steps of two seconds.\<close>

definition simulatedTime :: "rat list" where
  "simulatedTime =
     [2000, 4000, 6000, 8000, 10000, 12000, 14000, 16000, 18000, 20000,
      22000, 24000, 26000, 28000, 30000, 32000, 34000, 36000, 38000, 40000,
      42000, 44000, 46000, 48000, 50000, 52000, 54000, 56000, 58000, 60000]"

text \<open>The operator loads the module, starts the batch and waits.\<close>

definition fullBatch :: "sys_event list" where
  "fullBatch = [ClickModule, ClickStartBatch] @ ticks simulatedTime"

text \<open>
  The operator loads the module and starts the batch. The first shot ends at 3 s, where the
  reconciliation effect stops the recording and sets its 500 ms timer. At 3.2 s the operator
  clicks the module's button again. The recorder's completion arrives at 3.3 s, a frame is
  drawn, the timer fires at 3.6 s, and another frame is drawn.
\<close>

definition reloadDuringBatch :: "sys_event list" where
  "reloadDuringBatch =
     [ClickModule, ClickStartBatch] @ ticks [1000, 2000, 3000] @
     [TimePasses 3200, ClickModule,
      TimePasses 3300, RecorderStopped 1, AnimationFrame (33 / 10) (1 / 60),
      TimePasses 3600, TimerFires, AnimationFrame (36 / 10) (1 / 60)]"

text \<open>
  The same, and the operator clicks the module's button a third time at 3.7 s.
\<close>

definition reloadTwice :: "sys_event list" where
  "reloadTwice = reloadDuringBatch @ [TimePasses 3700, ClickModule]"

text \<open>
  The operator loads the module, starts the batch and waits, and the recorder is slow: its
  completion arrives 600 ms after \<open>stop\<close>, that is 100 ms after the timer of the
  reconciliation effect. The first shot ends at 3 s: the timer fires at 3.5 s and the
  completion arrives at 3.6 s. The recording that starts then ends at 23.6 s and is stopped
  by the frame at 24 s: the timer fires at 24.5 s and the completion arrives at 24.6 s.
\<close>

definition lateCompletion :: "sys_event list" where
  "lateCompletion =
     [ClickModule, ClickStartBatch] @ ticks [1000, 2000, 3000] @
     [TimePasses 3500, TimerFires, TimePasses 3600, RecorderStopped 1] @
     ticks [4000, 12000, 20000, 24000] @
     [TimePasses 24500, TimerFires, TimePasses 24600, RecorderStopped 1] @
     ticks [26000]"

text \<open>The engine calls that a job of the deliverable list stands for.\<close>

definition expectedCalls :: "DeliverableSpec \<Rightarrow> (string \<times> string) list" where
  "expectedCalls job =
     (if del_type job = METADATA then [(''saveJSON'', filename job)]
      else [(''startRecording'', filename job), (''stopRecording'', [])])"

section \<open>Properties of the module functions\<close>

text \<open>The equations that evaluate the module functions on concrete contexts.\<close>

lemmas module_defs =
  init_def engineCamera_def createParticleSystem_def SHIMMER_def camera_lookAt_def
  startBatch_def batchEffect_def reconcile_def at_index_def advance_def metadataPayload_def
  DELIVERABLES_def SHOT_SPECS_def setupJob_def update_def animateParticles_def playback_def
  interpolate_def truthy_def setOpacity_def set_rotation_y_def playPreview_def frames_def
  Let_def split_beta

subsection \<open>Fields that the helpers leave alone\<close>

lemma setOpacity_fields [simp]:
  "camera (setOpacity v c) = camera c"
  "activeShotId (setOpacity v c) = activeShotId c"
  "isPlaying (setOpacity v c) = isPlaying c"
  "startTime (setOpacity v c) = startTime c"
  "progress (setOpacity v c) = progress c"
  "trackingData (setOpacity v c) = trackingData c"
  "batch (setOpacity v c) = batch c"
  "onSignal (setOpacity v c) = onSignal c"
  "preset (setOpacity v c) = preset c"
  by (simp_all add: setOpacity_def)

lemma set_rotation_y_fields [simp]:
  "camera (set_rotation_y v c) = camera c"
  "activeShotId (set_rotation_y v c) = activeShotId c"
  "isPlaying (set_rotation_y v c) = isPlaying c"
  "startTime (set_rotation_y v c) = startTime c"
  "progress (set_rotation_y v c) = progress c"
  "trackingData (set_rotation_y v c) = trackingData c"
  "batch (set_rotation_y v c) = batch c"
  "onSignal (set_rotation_y v c) = onSignal c"
  "preset (set_rotation_y v c) = preset c"
  by (simp_all add: set_rotation_y_def)

lemma animateParticles_fields [simp]:
  "camera (animateParticles c time) = camera c"
  "activeShotId (animateParticles c time) = activeShotId c"
  "isPlaying (animateParticles c time) = isPlaying c"
  "startTime (animateParticles c time) = startTime c"
  "progress (animateParticles c time) = progress c"
  "trackingData (animateParticles c time) = trackingData c"
  "batch (animateParticles c time) = batch c"
  "onSignal (animateParticles c time) = onSignal c"
  by (simp_all add: animateParticles_def Let_def)

lemma interpolate_fields [simp]:
  "activeShotId (interpolate sh e t c) = activeShotId c"
  "isPlaying (interpolate sh e t c) = isPlaying c"
  "startTime (interpolate sh e t c) = startTime c"
  "progress (interpolate sh e t c) = progress c"
  "batch (interpolate sh e t c) = batch c"
  "onSignal (interpolate sh e t c) = onSignal c"
  by (simp_all add: interpolate_def Let_def)

lemma interpolate_position:
  "position (camera (interpolate sh e t c)) =
     lerpVectors (posStart (shot_camera sh)) (posEnd (shot_camera sh)) t"
  by (simp add: interpolate_def Let_def camera_lookAt_def)

lemma interpolate_tracking:
  "\<exists>added. trackingData (interpolate sh e t c) = trackingData c @ added \<and>
           (\<forall>s \<in> set added. s_shotId s = shot_id sh)"
  by (simp add: interpolate_def Let_def)

lemma playback_idle: "\<not> isPlaying c \<Longrightarrow> playback now c = (c, [])"
  by (simp add: playback_def)

lemma playback_batch [simp]: "batch (fst (playback now c)) = batch c"
  by (simp add: playback_def Let_def split: option.splits)

lemma playback_activeShotId [simp]: "activeShotId (fst (playback now c)) = activeShotId c"
  by (simp add: playback_def Let_def split: option.splits)

lemma playback_startTime [simp]: "startTime (fst (playback now c)) = startTime c"
  by (simp add: playback_def Let_def split: option.splits)

lemma update_batch [simp]: "batch (fst (update now c time delta)) = batch c"
  by (simp add: update_def)

lemma update_idle: "\<not> isPlaying c \<Longrightarrow> snd (update now c time delta) = [] \<and> \<not> isPlaying (fst (update now c time delta))"
  by (simp add: update_def playback_idle)

lemma frames_Nil [simp]: "frames c [] = (c, [])"
  by (simp add: frames_def)

lemma frames_Cons:
  "frames c ((now, time, delta) # fs) =
     (fst (frames (fst (update now c time delta)) fs),
      snd (update now c time delta) @ snd (frames (fst (update now c time delta)) fs))"
  by (simp add: frames_def split_beta)

lemma frames_idle: "\<not> isPlaying c \<Longrightarrow> snd (frames c fs) = []"
proof (induction fs arbitrary: c)
  case Nil
  then show ?case by simp
next
  case (Cons f fs)
  obtain now time delta where f: "f = (now, time, delta)" by (cases f)
  from update_idle[OF Cons.prems, of now time delta] Cons.IH[of "fst (update now c time delta)"]
  show ?case by (simp add: f frames_Cons)
qed

lemma find_SH01:
  "find (\<lambda>s. Some (shot_id s) = Some ''SH01'') SHOT_SPECS =
     Some \<lparr>shot_id = ''SH01'', slug = ''SH01'', duration = 3,
           shot_camera = \<lparr>lens = 50, posStart = (0, 0, 5), posEnd = (0, 0, 0), lookAt = (0, 0, 0)\<rparr>\<rparr>"
  by (simp add: SHOT_SPECS_def)

lemma playback_SH01:
  assumes "isPlaying c" and "activeShotId c = Some ''SH01''"
  shows "playback now c =
    (let elapsed = (now - startTime c) / 1000; t = min (elapsed / 3) 1;
         c2 = interpolate \<lparr>shot_id = ''SH01'', slug = ''SH01'', duration = 3,
           shot_camera = \<lparr>lens = 50, posStart = (0, 0, 5), posEnd = (0, 0, 0), lookAt = (0, 0, 0)\<rparr>\<rparr>
             elapsed t (c\<lparr>progress := round (t * 100)\<rparr>)
     in if t \<ge> 1 then (c2\<lparr>isPlaying := False\<rparr>, (case onSignal c of Some k \<Rightarrow> [Signal k] | None \<Rightarrow> []))
        else (c2, []))"
  using assms find_SH01 by (simp add: playback_def truthy_def Let_def)

text \<open>
  Claim C3 (shot interpolation boundary). The shot with \<open>posStart = [0,0,5]\<close>,
  \<open>posEnd = [0,0,0]\<close> and \<open>duration = 3\<close> is \<open>SH01\<close>. While it plays with a signal
  installed, the frame at elapsed 1.5 s puts the camera at \<open>[0,0,2.5]\<close> and sets progress
  to 50; every frame at elapsed 3 s or more puts the camera at the end position (t = 1),
  sets progress to 100 and \<open>isPlaying\<close> to false, and over that frame and any frames that
  follow the signal is called exactly once.
\<close>

theorem shot_interpolation_boundary:
  assumes "isPlaying ctx" and "activeShotId ctx = Some ''SH01''" and "onSignal ctx = Some k"
  shows "find (\<lambda>s. shot_id s = ''SH01'') SHOT_SPECS =
           Some \<lparr>shot_id = ''SH01'', slug = ''SH01'', duration = 3,
                 shot_camera = \<lparr>lens = 50, posStart = (0, 0, 5), posEnd = (0, 0, 0),
                                lookAt = (0, 0, 0)\<rparr>\<rparr> \<and>
         ((now - startTime ctx) / 1000 = 3 / 2 \<longrightarrow>
            position (camera (fst (update now ctx time delta))) = (0, 0, 5 / 2) \<and>
            progress (fst (update now ctx time delta)) = 50 \<and>
            isPlaying (fst (update now ctx time delta)) \<and>
            snd (update now ctx time delta) = []) \<and>
         (3 \<le> (now - startTime ctx) / 1000 \<longrightarrow>
            position (camera (fst (update now ctx time delta))) = (0, 0, 0) \<and>
            progress (fst (update now ctx time delta)) = 100 \<and>
            \<not> isPlaying (fst (update now ctx time delta)) \<and>
            snd (frames ctx ((now, time, delta) # fs)) = [Signal k])"
proof (intro conjI impI)
  show "find (\<lambda>s. shot_id s = ''SH01'') SHOT_SPECS =
           Some \<lparr>shot_id = ''SH01'', slug = ''SH01'', duration = 3,
                 shot_camera = \<lparr>lens = 50, posStart = (0, 0, 5), posEnd = (0, 0, 0),
                                lookAt = (0, 0, 0)\<rparr>\<rparr>"
    by (simp add: SHOT_SPECS_def)
next
  have pb: "update n ctx time delta = playback n (animateParticles ctx time)" for n
    by (simp add: update_def)
  have sh: "playback n (animateParticles ctx time) =
    (let elapsed = (n - startTime ctx) / 1000; t = min (elapsed / 3) 1;
         c2 = interpolate \<lparr>shot_id = ''SH01'', slug = ''SH01'', duration = 3,
           shot_camera = \<lparr>lens = 50, posStart = (0, 0, 5), posEnd = (0, 0, 0), lookAt = (0, 0, 0)\<rparr>\<rparr>
             elapsed t ((animateParticles ctx time)\<lparr>progress := round (t * 100)\<rparr>)
     in if t \<ge> 1 then (c2\<lparr>isPlaying := False\<rparr>, [Signal k])
        else (c2, []))" for n
    using playback_SH01[of "animateParticles ctx time" n] assms by (simp add: Let_def)
  {
    assume "(now - startTime ctx) / 1000 = 3 / 2"
    then have e: "now = startTime ctx + 1500" by simp
    show "position (camera (fst (update now ctx time delta))) = (0, 0, 5 / 2)"
      by (simp add: pb sh e Let_def interpolate_position)
    show "progress (fst (update now ctx time delta)) = 50"
      by (simp add: pb sh e Let_def)
    show "isPlaying (fst (update now ctx time delta))"
      using assms(1) by (simp add: pb sh e Let_def)
    show "snd (update now ctx time delta) = []"
      by (simp add: pb sh e Let_def)
  }
  {
    assume a: "3 \<le> (now - startTime ctx) / 1000"
    show "position (camera (fst (update now ctx time delta))) = (0, 0, 0)"
      using a by (simp add: pb sh Let_def interpolate_position min_def)
    show "progress (fst (update now ctx time delta)) = 100"
      using a by (simp add: pb sh Let_def min_def)
    show np: "\<not> isPlaying (fst (update now ctx time delta))"
      using a by (simp add: pb sh Let_def min_def)
    have "snd (update now ctx time delta) = [Signal k]"
      using a by (simp add: pb sh Let_def min_def)
    with frames_idle[OF np, of fs]
    show "snd (frames ctx ((now, time, delta) # fs)) = [Signal k]"
      by (simp add: frames_Cons)
  }
qed


theorem shot_interpolation_boundary_witness:
  "isPlaying playingSH01 \<and> activeShotId playingSH01 = Some ''SH01'' \<and>
   onSignal playingSH01 = Some 0 \<and>
   (2500 - startTime playingSH01) / 1000 = 3 / 2 \<and>
   position (camera (fst (update 2500 playingSH01 1 1))) = (0, 0, 5 / 2) \<and>
   progress (fst (update 2500 playingSH01 1 1)) = 50 \<and>
   3 \<le> (4000 - startTime playingSH01) / 1000 \<and>
   progress (fst (update 4000 playingSH01 1 1)) = 100 \<and>
   \<not> isPlaying (fst (update 4000 playingSH01 1 1)) \<and>
   snd (frames playingSH01 [(4000, 1, 1), (4016, 2, 1), (4033, 3, 1)]) = [Signal 0]"
proof -
  have h1: "isPlaying playingSH01"
    and h2: "activeShotId playingSH01 = Some ''SH01''"
    and h3: "onSignal playingSH01 = Some 0"
    and h4: "startTime playingSH01 = 1000"
    by (simp_all add: playingSH01_def playPreview_def SHOT_SPECS_def Let_def)
  from shot_interpolation_boundary[OF h1 h2 h3, of 2500 1 1]
       shot_interpolation_boundary[OF h1 h2 h3, of 4000 1 1 "[(4016, 2, 1), (4033, 3, 1)]"]
       h1 h2 h3 h4
  show ?thesis by simp
qed

subsection \<open>The synthetic VFX pass and the tracking data\<close>

lemma find_SHOT_SPECS_id:
  "find (\<lambda>s. Some (shot_id s) = a) SHOT_SPECS = Some sh \<Longrightarrow>
     shot_id sh \<in> {''SH01'', ''SH02'', ''SH03''}"
  by (auto simp: SHOT_SPECS_def split: if_splits)

lemma find_VFX_PASS: "find (\<lambda>s. Some (shot_id s) = Some ''VFX_PASS'') SHOT_SPECS = None"
  by (simp add: SHOT_SPECS_def)

lemma playback_VFX:
  assumes "isPlaying c" and "activeShotId c = Some ''VFX_PASS''"
  shows "playback now c =
     (let t = min ((now - startTime c) / 1000 / 12) 1; c1 = c\<lparr>progress := round (t * 100)\<rparr>
      in if t \<ge> 1
         then (c1\<lparr>isPlaying := False\<rparr>, (case onSignal c of Some k \<Rightarrow> [Signal k] | None \<Rightarrow> []))
         else (c1, []))"
  using assms find_VFX_PASS by (simp add: playback_def truthy_def Let_def)

lemma playback_tracking:
  "\<exists>added. trackingData (fst (playback now c)) = trackingData c @ added \<and>
           (\<forall>s \<in> set added. s_shotId s \<in> {''SH01'', ''SH02'', ''SH03''})"
proof -
  define P where "P = (\<lambda>s::Sample. s_shotId s \<in> {''SH01'', ''SH02'', ''SH03''})"
  have "\<exists>added. trackingData (fst (playback now c)) = trackingData c @ added \<and>
           (\<forall>s \<in> set added. P s)"
  proof (cases "find (\<lambda>s. Some (shot_id s) = activeShotId c) SHOT_SPECS")
    case None
    then show ?thesis by (simp add: playback_def Let_def)
  next
    case (Some sh)
    then have r: "shot_id sh \<in> {''SH01'', ''SH02'', ''SH03''}" by (rule find_SHOT_SPECS_id)
    have *: "\<exists>added. trackingData (interpolate sh e t (c\<lparr>progress := p\<rparr>)) = trackingData c @ added \<and>
                (\<forall>s \<in> set added. P s)" for e t p
      using interpolate_tracking[of sh e t "c\<lparr>progress := p\<rparr>"] r unfolding P_def by auto
    show ?thesis
      by (simp add: playback_def Let_def Some *)
  qed
  then show ?thesis unfolding P_def .
qed

lemma update_tracking:
  "\<exists>added. trackingData (fst (update now c time delta)) = trackingData c @ added \<and>
           (\<forall>s \<in> set added. s_shotId s \<in> {''SH01'', ''SH02'', ''SH03''})"
  using playback_tracking[of now "animateParticles c time"] by (simp add: update_def)

lemma setupJob_tracking [simp]: "trackingData (setupJob shots job c) = trackingData c"
  by (simp add: setupJob_def Let_def split: option.splits)

lemma setupJob_batch [simp]: "batch (setupJob shots job c) = batch c"
  by (simp add: setupJob_def Let_def split: option.splits)

lemma reconcile_tracking [simp]:
  "trackingData (fst (reconcile dels shots r now c)) = trackingData c"
  by (simp add: reconcile_def advance_def split: option.splits)

lemma playPreview_tracking [simp]: "trackingData (fst (playPreview now sid c)) = trackingData c"
  by (simp add: playPreview_def Let_def split: option.splits)

lemma playPreview_batch [simp]: "batch (fst (playPreview now sid c)) = batch c"
  by (simp add: playPreview_def Let_def split: option.splits)

lemma switchScenePreset_tracking [simp]:
  "trackingData (fst (switchScenePreset k pts c)) = trackingData c"
  by (simp add: switchScenePreset_def Let_def split_beta split: option.splits)

lemma switchScenePreset_batch [simp]: "batch (fst (switchScenePreset k pts c)) = batch c"
  by (simp add: switchScenePreset_def Let_def split_beta split: option.splits)

lemma real_samples_op: "real_samples c \<Longrightarrow> real_samples (fst (apply_op x c))"
proof (cases x)
  case (OpUpdate now time delta)
  assume a: "real_samples c"
  obtain added where "trackingData (fst (update now c time delta)) = trackingData c @ added"
    and "\<forall>s \<in> set added. s_shotId s \<in> {''SH01'', ''SH02'', ''SH03''}"
    using update_tracking by blast
  with a show ?thesis unfolding real_samples_def OpUpdate by auto
qed (simp_all add: real_samples_def batchEffect_def startBatch_def)

lemma real_samples_run: "real_samples c \<Longrightarrow> real_samples (fst (run_ops c xs))"
  by (induction xs arbitrary: c) (simp_all add: split_beta real_samples_op)

lemma real_samples_init: "real_samples (init cam pts)"
  by (simp add: real_samples_def init_def Let_def split_beta)

text \<open>
  Claim C9. \<open>VFX_PASS\<close> is not a Shot Spec. While it is the playing shot, a frame leaves
  the camera and the tracking data as they are, and playback stays on exactly while the
  elapsed time is below 12 s. Every frame appends to the tracking data only samples of
  \<open>SH01\<close>, \<open>SH02\<close> or \<open>SH03\<close>, so after any operations on a fresh context every
  sample carries one of these three identifiers.
\<close>

theorem vfx_pass_untracked:
  "find (\<lambda>s. shot_id s = ''VFX_PASS'') SHOT_SPECS = None \<and>
   (isPlaying ctx \<and> activeShotId ctx = Some ''VFX_PASS'' \<longrightarrow>
      camera (fst (update now ctx time delta)) = camera ctx \<and>
      trackingData (fst (update now ctx time delta)) = trackingData ctx \<and>
      (isPlaying (fst (update now ctx time delta)) \<longleftrightarrow> (now - startTime ctx) / 1000 < 12)) \<and>
   (\<exists>added. trackingData (fst (update now ctx time delta)) = trackingData ctx @ added \<and>
            (\<forall>s \<in> set added. s_shotId s \<in> {''SH01'', ''SH02'', ''SH03''})) \<and>
   (\<forall>s \<in> set (trackingData (fst (run_ops (init cam pts) xs))).
      s_shotId s \<in> {''SH01'', ''SH02'', ''SH03''} \<and> s_shotId s \<noteq> ''VFX_PASS'')"
proof (intro conjI impI)
  show "find (\<lambda>s. shot_id s = ''VFX_PASS'') SHOT_SPECS = None"
    by (simp add: SHOT_SPECS_def)
next
  assume a: "isPlaying ctx \<and> activeShotId ctx = Some ''VFX_PASS''"
  have pb: "playback now (animateParticles ctx time) =
     (let t = min ((now - startTime ctx) / 1000 / 12) 1;
          c1 = (animateParticles ctx time)\<lparr>progress := round (t * 100)\<rparr>
      in if t \<ge> 1
         then (c1\<lparr>isPlaying := False\<rparr>, (case onSignal ctx of Some k \<Rightarrow> [Signal k] | None \<Rightarrow> []))
         else (c1, []))"
    using playback_VFX[of "animateParticles ctx time" now] a by (simp add: Let_def)
  show "camera (fst (update now ctx time delta)) = camera ctx"
    by (simp add: update_def pb Let_def)
  show "trackingData (fst (update now ctx time delta)) = trackingData ctx"
    by (simp add: update_def pb Let_def)
  show "isPlaying (fst (update now ctx time delta)) \<longleftrightarrow> (now - startTime ctx) / 1000 < 12"
    using a by (auto simp add: update_def pb Let_def min_def)
next
  show "\<exists>added. trackingData (fst (update now ctx time delta)) = trackingData ctx @ added \<and>
            (\<forall>s \<in> set added. s_shotId s \<in> {''SH01'', ''SH02'', ''SH03''})"
    by (rule update_tracking)
next
  have "real_samples (fst (run_ops (init cam pts) xs))"
    by (rule real_samples_run[OF real_samples_init])
  then show "\<forall>s \<in> set (trackingData (fst (run_ops (init cam pts) xs))).
      s_shotId s \<in> {''SH01'', ''SH02'', ''SH03''} \<and> s_shotId s \<noteq> ''VFX_PASS''"
    unfolding real_samples_def by auto
qed


theorem vfx_pass_untracked_witness:
  "isPlaying vfxPlaying \<and> activeShotId vfxPlaying = Some ''VFX_PASS'' \<and>
   camera (fst (update 7000 vfxPlaying 6 1)) = camera vfxPlaying \<and>
   trackingData (fst (update 7000 vfxPlaying 6 1)) = trackingData vfxPlaying \<and>
   isPlaying (fst (update 12999 vfxPlaying 12 1)) \<and>
   \<not> isPlaying (fst (update 13000 vfxPlaying 12 1)) \<and>
   trackingData (fst (run_ops (init engineCamera []) firstFrameOps)) = [firstSample] \<and>
   s_shotId firstSample \<in> {''SH01'', ''SH02'', ''SH03''} \<and> s_shotId firstSample \<noteq> ''VFX_PASS''"
proof -
  have h: "isPlaying vfxPlaying \<and> activeShotId vfxPlaying = Some ''VFX_PASS''"
    and st: "startTime vfxPlaying = 1000"
    by (simp_all add: vfxPlaying_def batchEffect_def reconcile_def at_index_def DELIVERABLES_def
        setupJob_def init_def split_beta Let_def)
  have t: "trackingData (fst (run_ops (init engineCamera []) firstFrameOps)) = [firstSample]"
    by (simp add: firstFrameOps_def firstSample_def init_def engineCamera_def
        createParticleSystem_def camera_lookAt_def startBatch_def batchEffect_def reconcile_def
        at_index_def DELIVERABLES_def SHOT_SPECS_def setupJob_def update_def animateParticles_def
        playback_def interpolate_def truthy_def setOpacity_def set_rotation_y_def Let_def)
  then have m: "firstSample \<in> set (trackingData (fst (run_ops (init engineCamera []) firstFrameOps)))"
    by simp
  from vfx_pass_untracked[of vfxPlaying 7000 6 1 engineCamera "[]" firstFrameOps]
       vfx_pass_untracked[of vfxPlaying 12999 12 1 engineCamera "[]" firstFrameOps]
       vfx_pass_untracked[of vfxPlaying 13000 12 1 engineCamera "[]" firstFrameOps]
       h st t m
  show ?thesis by simp
qed

subsection \<open>Unknown shots\<close>

lemma find_unknown:
  assumes "a = None \<or> (\<exists>s. a = Some s \<and> s \<notin> shot_id ` set SHOT_SPECS \<and> s \<noteq> ''VFX_PASS'')"
  shows "find (\<lambda>s. Some (shot_id s) = a) SHOT_SPECS = None"
  using assms unfolding SHOT_SPECS_def by auto

lemma playback_unknown:
  assumes "activeShotId c = None \<or>
           (\<exists>s. activeShotId c = Some s \<and> s \<notin> shot_id ` set SHOT_SPECS \<and> s \<noteq> ''VFX_PASS'')"
  shows "playback now c = (c, [])"
proof -
  have "activeShotId c \<noteq> Some ''VFX_PASS''" using assms by auto
  then show ?thesis by (simp add: playback_def Let_def find_unknown[OF assms])
qed

lemma frames_unknown:
  assumes "activeShotId c = None \<or>
           (\<exists>s. activeShotId c = Some s \<and> s \<notin> shot_id ` set SHOT_SPECS \<and> s \<noteq> ''VFX_PASS'')"
  shows "snd (frames c fs) = []"
  using assms
proof (induction fs arbitrary: c)
  case Nil
  then show ?case by simp
next
  case (Cons f fs)
  obtain now time delta where f: "f = (now, time, delta)" by (cases f)
  have u: "update now c time delta = (animateParticles c time, [])"
    using playback_unknown[of "animateParticles c time" now] Cons.prems by (simp add: update_def)
  have "snd (frames (animateParticles c time) fs) = []"
    using Cons.IH[of "animateParticles c time"] Cons.prems by simp
  then show ?case by (simp add: f frames_Cons u)
qed

text \<open>
  Claim C10. When \<open>update\<close> runs with \<open>isPlaying\<close> true while \<open>activeShotId\<close> is null or
  names neither a Shot Spec nor \<open>VFX_PASS\<close>, the playback branch changes nothing: the frame
  leaves \<open>isPlaying\<close>, \<open>progress\<close>, \<open>startTime\<close> and the camera as they were and calls no
  signal, and no later frame calls one either.
\<close>

theorem unknown_shot_inert:
  assumes "isPlaying ctx"
    and "activeShotId ctx = None \<or>
         (\<exists>s. activeShotId ctx = Some s \<and> s \<notin> shot_id ` set SHOT_SPECS \<and> s \<noteq> ''VFX_PASS'')"
  shows "playback now ctx = (ctx, []) \<and>
         isPlaying (fst (update now ctx time delta)) = isPlaying ctx \<and>
         progress (fst (update now ctx time delta)) = progress ctx \<and>
         startTime (fst (update now ctx time delta)) = startTime ctx \<and>
         camera (fst (update now ctx time delta)) = camera ctx \<and>
         snd (update now ctx time delta) = [] \<and>
         snd (frames ctx fs) = []"
proof -
  have u: "update now ctx time delta = (animateParticles ctx time, [])"
    using playback_unknown[of "animateParticles ctx time" now] assms(2) by (simp add: update_def)
  show ?thesis
    using playback_unknown[OF assms(2)] frames_unknown[OF assms(2)] by (simp add: u)
qed

theorem unknown_shot_inert_witness:
  "isPlaying orphanPlaying \<and> activeShotId orphanPlaying = None \<and>
   playback 5000 orphanPlaying = (orphanPlaying, []) \<and>
   progress (fst (update 5000 orphanPlaying 5 1)) = progress orphanPlaying \<and>
   camera (fst (update 5000 orphanPlaying 5 1)) = camera orphanPlaying \<and>
   isPlaying (fst (update 5000 orphanPlaying 5 1)) \<and>
   snd (frames orphanPlaying [(5000, 5, 1), (90000, 90, 1)]) = []"
proof -
  have h1: "isPlaying orphanPlaying" and h2: "activeShotId orphanPlaying = None"
    by (simp_all add: orphanPlaying_def batchStarted_def orphanPlate_def module_defs)
  from h2 have h3: "activeShotId orphanPlaying = None \<or>
         (\<exists>s. activeShotId orphanPlaying = Some s \<and> s \<notin> shot_id ` set SHOT_SPECS \<and> s \<noteq> ''VFX_PASS'')"
    by simp
  from unknown_shot_inert[OF h1 h3, of 5000 5 1 "[(5000, 5, 1), (90000, 90, 1)]"] h1 h2
  show ?thesis by simp
qed

subsection \<open>Dispatch of a plate without a Shot Spec\<close>

text \<open>
  Claim C7. When the reconciliation effect dispatches a \<open>VIDEO_PLATE\<close> job whose \<open>shotId\<close>
  matches no Shot Spec, the camera and \<open>activeShotId\<close> stay as they were (the set-up is
  skipped), \<open>startRecording\<close> is still called with the job's file name, \<open>startTime\<close> is set
  to the current time and \<open>isPlaying\<close> to true; on an engine with a renderer that call
  starts a recording under that name.
\<close>

theorem lookup_miss_still_records:
  assumes "active (batch ctx)" and "status (batch ctx) = PROCESSING" and "\<not> isPlaying ctx"
    and "at_index dels (index (batch ctx)) = Some job" and "del_type job = VIDEO_PLATE"
    and "\<forall>s \<in> set shots. Some (shot_id s) \<noteq> shotId job"
  shows "reconcile dels shots False now ctx =
           (ctx\<lparr>startTime := now, isPlaying := True\<rparr>, [StartRecording (filename job), OnUpdate]) \<and>
         camera (fst (reconcile dels shots False now ctx)) = camera ctx \<and>
         activeShotId (fst (reconcile dels shots False now ctx)) = activeShotId ctx \<and>
         startTime (fst (reconcile dels shots False now ctx)) = now \<and>
         isPlaying (fst (reconcile dels shots False now ctx)) \<and>
         (hasRenderer e \<longrightarrow>
            recordingInProgress (startRecording CaptureOk (filename job) e) \<and>
            isRecording (startRecording CaptureOk (filename job) e) \<and>
            recordingName (startRecording CaptureOk (filename job) e) = filename job)"
proof -
  from assms(6) have "find (\<lambda>s. Some (shot_id s) = shotId job) shots = None"
    by (simp add: find_None_iff)
  then have r: "reconcile dels shots False now ctx =
           (ctx\<lparr>startTime := now, isPlaying := True\<rparr>, [StartRecording (filename job), OnUpdate])"
    using assms(1-5) by (simp add: reconcile_def setupJob_def)
  have "hasRenderer e \<longrightarrow>
            recordingInProgress (startRecording CaptureOk (filename job) e) \<and>
            isRecording (startRecording CaptureOk (filename job) e) \<and>
            recordingName (startRecording CaptureOk (filename job) e) = filename job"
    by (simp add: startRecording_def recordingInProgress_def at_index_def Let_def)
  with r show ?thesis by simp
qed

theorem lookup_miss_still_records_witness:
  "active (batch batchStarted) \<and> status (batch batchStarted) = PROCESSING \<and>
   \<not> isPlaying batchStarted \<and>
   at_index [orphanPlate] (index (batch batchStarted)) = Some orphanPlate \<and>
   del_type orphanPlate = VIDEO_PLATE \<and>
   find (\<lambda>s. Some (shot_id s) = shotId orphanPlate) SHOT_SPECS = None \<and>
   reconcile [orphanPlate] SHOT_SPECS False 250 batchStarted =
     (batchStarted\<lparr>startTime := 250, isPlaying := True\<rparr>,
      [StartRecording ''AOB_SEQ01_S01_SH99_PLATE_v001.webm'', OnUpdate]) \<and>
   hasRenderer engine0 \<and>
   recordingInProgress (startRecording CaptureOk ''AOB_SEQ01_S01_SH99_PLATE_v001.webm'' engine0)"
proof -
  have h1: "active (batch batchStarted)" and h2: "status (batch batchStarted) = PROCESSING"
    and h3: "\<not> isPlaying batchStarted"
    and h4: "at_index [orphanPlate] (index (batch batchStarted)) = Some orphanPlate"
    and h5: "del_type orphanPlate = VIDEO_PLATE"
    by (simp_all add: batchStarted_def orphanPlate_def module_defs)
  have h6: "\<forall>s \<in> set SHOT_SPECS. Some (shot_id s) \<noteq> shotId orphanPlate"
    by (simp add: SHOT_SPECS_def orphanPlate_def)
  then have f: "find (\<lambda>s. Some (shot_id s) = shotId orphanPlate) SHOT_SPECS = None"
    by (simp add: find_None_iff)
  have h7: "hasRenderer engine0" and n: "filename orphanPlate = ''AOB_SEQ01_S01_SH99_PLATE_v001.webm''"
    by (simp_all add: engine0_def orphanPlate_def)
  from lookup_miss_still_records[OF h1 h2 h3 h4 h5 h6, of 250 engine0] h1 h2 h3 h4 h5 f h7 n
  show ?thesis by simp
qed

subsection \<open>The batch cursor\<close>

lemma reconcile_index_mono:
  "index (batch c) \<le> index (batch (fst (reconcile dels shots r now c)))"
  by (simp add: reconcile_def advance_def split: option.splits)

lemma reconcile_status:
  "status (batch (fst (reconcile dels shots r now c))) =
     (if active (batch c) \<and> status (batch c) \<noteq> COMPLETE \<and> at_index dels (index (batch c)) = None
      then COMPLETE else status (batch c))"
  by (simp add: reconcile_def advance_def split: option.splits)

lemma reconcile_index_le:
  "index (batch c) \<le> length dels \<Longrightarrow>
     index (batch (fst (reconcile dels shots r now c))) \<le> length dels"
  by (auto simp add: reconcile_def advance_def at_index_def split: option.splits if_splits)

lemma reconcile_complete_index:
  assumes "index (batch c) \<le> length dels" and "status (batch c) \<noteq> COMPLETE"
    and "status (batch (fst (reconcile dels shots r now c))) = COMPLETE"
  shows "index (batch (fst (reconcile dels shots r now c))) = length dels"
proof -
  from assms(2,3) have a: "active (batch c)" and n: "at_index dels (index (batch c)) = None"
    by (auto simp add: reconcile_status split: if_splits)
  from n assms(1) have "index (batch c) = length dels"
    by (simp add: at_index_def split: if_splits)
  with a n assms(2) show ?thesis by (simp add: reconcile_def)
qed

lemma reconcile_complete_fix: "status (batch c) = COMPLETE \<Longrightarrow> reconcile dels shots r now c = (c, [])"
  by (simp add: reconcile_def)

lemma batch_inv_op: "batch_inv c \<Longrightarrow> batch_inv (fst (apply_op x c))"
proof (cases x)
  case (OpReconcile r now)
  assume i: "batch_inv c"
  show ?thesis
  proof (cases "status (batch c) = COMPLETE")
    case True
    then show ?thesis using i OpReconcile by (simp add: batchEffect_def reconcile_complete_fix)
  next
    case False
    then show ?thesis
      using i OpReconcile reconcile_index_le[of c DELIVERABLES SHOT_SPECS r now]
        reconcile_complete_index[of c DELIVERABLES SHOT_SPECS r now]
      by (simp add: batch_inv_def batchEffect_def)
  qed
qed (simp_all add: batch_inv_def startBatch_def)

lemma batch_inv_run: "batch_inv c \<Longrightarrow> batch_inv (fst (run_ops c xs))"
  by (induction xs arbitrary: c) (simp_all add: split_beta batch_inv_op)

lemma batch_inv_init: "batch_inv (init cam pts)"
  by (simp add: batch_inv_def init_def Let_def split_beta)

lemma op_index_mono:
  "x \<noteq> OpStartBatch \<Longrightarrow> index (batch c) \<le> index (batch (fst (apply_op x c)))"
  by (cases x) (simp_all add: batchEffect_def reconcile_index_mono)

lemma run_index_mono:
  "OpStartBatch \<notin> set xs \<Longrightarrow> index (batch c) \<le> index (batch (fst (run_ops c xs)))"
proof (induction xs arbitrary: c)
  case Nil
  then show ?case by simp
next
  case (Cons x xs)
  have "index (batch c) \<le> index (batch (fst (apply_op x c)))"
    using Cons.prems op_index_mono[of x c] by auto
  also have "\<dots> \<le> index (batch (fst (run_ops (fst (apply_op x c)) xs)))"
    using Cons by simp
  finally show ?case by (simp add: split_beta)
qed

lemma op_processing:
  "x \<noteq> OpStartBatch \<Longrightarrow> status (batch (fst (apply_op x c))) = PROCESSING \<Longrightarrow>
     status (batch c) = PROCESSING"
  by (cases x) (simp_all add: batchEffect_def reconcile_status split: if_splits)

lemma op_complete:
  "x \<noteq> OpStartBatch \<Longrightarrow> status (batch c) = COMPLETE \<Longrightarrow>
     status (batch (fst (apply_op x c))) = COMPLETE"
  by (cases x) (simp_all add: batchEffect_def reconcile_status)

lemma run_complete:
  "OpStartBatch \<notin> set xs \<Longrightarrow> status (batch c) = COMPLETE \<Longrightarrow>
     status (batch (fst (run_ops c xs))) = COMPLETE"
proof (induction xs arbitrary: c)
  case Nil
  then show ?case by simp
next
  case (Cons x xs)
  from Cons.prems have "status (batch (fst (apply_op x c))) = COMPLETE"
    using op_complete[of x c] by auto
  with Cons show ?case by (simp add: split_beta)
qed

text \<open>
  Claim C2 (batch cursor). Over any operations other than \<open>startBatch\<close> the cursor never
  decreases; in every state reachable from \<open>init\<close> a batch whose status is \<open>COMPLETE\<close>
  has its cursor on the length of the deliverable list, which is 6; the reconciliation
  effect does nothing to a complete batch, and no operation other than \<open>startBatch\<close> moves
  a status to \<open>PROCESSING\<close> or away from \<open>COMPLETE\<close>; \<open>startBatch\<close> sets the status to
  \<open>PROCESSING\<close> and the cursor to 0.
\<close>

theorem batch_cursor_invariant:
  "(OpStartBatch \<notin> set xs \<longrightarrow> index (batch c) \<le> index (batch (fst (run_ops c xs)))) \<and>
   (status (batch (fst (run_ops (init cam pts) ys))) = COMPLETE \<longrightarrow>
      index (batch (fst (run_ops (init cam pts) ys))) = length DELIVERABLES) \<and>
   length DELIVERABLES = 6 \<and>
   (status (batch c) = COMPLETE \<longrightarrow> batchEffect recording now c = (c, [])) \<and>
   (OpStartBatch \<notin> set xs \<and> status (batch c) = COMPLETE \<longrightarrow>
      status (batch (fst (run_ops c xs))) = COMPLETE) \<and>
   (x \<noteq> OpStartBatch \<and> status (batch (fst (apply_op x c))) = PROCESSING \<longrightarrow>
      status (batch c) = PROCESSING) \<and>
   status (batch (fst (startBatch c))) = PROCESSING \<and>
   index (batch (fst (startBatch c))) = 0"
proof (intro conjI impI)
  assume "OpStartBatch \<notin> set xs"
  then show "index (batch c) \<le> index (batch (fst (run_ops c xs)))" by (rule run_index_mono)
next
  assume a: "status (batch (fst (run_ops (init cam pts) ys))) = COMPLETE"
  have "batch_inv (fst (run_ops (init cam pts) ys))"
    by (rule batch_inv_run[OF batch_inv_init])
  with a show "index (batch (fst (run_ops (init cam pts) ys))) = length DELIVERABLES"
    by (simp add: batch_inv_def)
next
  show "length DELIVERABLES = 6" by (simp add: DELIVERABLES_def)
next
  assume "status (batch c) = COMPLETE"
  then show "batchEffect recording now c = (c, [])"
    by (simp add: batchEffect_def reconcile_complete_fix)
next
  assume "OpStartBatch \<notin> set xs \<and> status (batch c) = COMPLETE"
  then show "status (batch (fst (run_ops c xs))) = COMPLETE" by (simp add: run_complete)
next
  assume "x \<noteq> OpStartBatch \<and> status (batch (fst (apply_op x c))) = PROCESSING"
  then show "status (batch c) = PROCESSING" using op_processing by blast
next
  show "status (batch (fst (startBatch c))) = PROCESSING" by (simp add: startBatch_def)
next
  show "index (batch (fst (startBatch c))) = 0" by (simp add: startBatch_def)
qed

lemma run_ops_step:
  assumes "apply_op x c = (c1, a1)" and "\<exists>c2 a2. run_ops c1 xs = (c2, a2) \<and> Q c2 (a1 @ a2)"
  shows "\<exists>c2 a. run_ops c (x # xs) = (c2, a) \<and> Q c2 a"
  using assms by auto

lemma batchDone_batch: "batch batchDone = \<lparr>active = False, index = 6, status = COMPLETE\<rparr>"
proof -
  have "\<exists>c a. run_ops (init engineCamera []) fullBatchOps = (c, a) \<and>
          batch c = \<lparr>active = False, index = 6, status = COMPLETE\<rparr>"
    unfolding fullBatchOps_def
    apply (rule run_ops_step, simp add: module_defs)+
    apply simp
    done
  then show ?thesis by (auto simp add: batchDone_def)
qed

theorem batch_cursor_invariant_witness:
  "OpStartBatch \<notin> set (tl fullBatchOps) \<and>
   index (batch batchStarted) \<le> index (batch (fst (run_ops batchStarted (tl fullBatchOps)))) \<and>
   status (batch (fst (run_ops (init engineCamera []) fullBatchOps))) = COMPLETE \<and>
   index (batch (fst (run_ops (init engineCamera []) fullBatchOps))) = 6 \<and>
   status (batch batchDone) = COMPLETE \<and>
   batchEffect False 50000 batchDone = (batchDone, []) \<and>
   status (batch (fst (run_ops batchDone (tl fullBatchOps)))) = COMPLETE \<and>
   OpReconcile False 0 \<noteq> OpStartBatch \<and>
   status (batch (fst (apply_op (OpReconcile False 0) batchStarted))) = PROCESSING \<and>
   status (batch batchStarted) = PROCESSING"
proof -
  have h1: "OpStartBatch \<notin> set (tl fullBatchOps)"
    by (simp add: fullBatchOps_def)
  have h2: "status (batch (fst (run_ops (init engineCamera []) fullBatchOps))) = COMPLETE"
    using batchDone_batch by (simp add: batchDone_def)
  have h3: "status (batch batchDone) = COMPLETE"
    using batchDone_batch by simp
  have h4: "status (batch (fst (apply_op (OpReconcile False 0) batchStarted))) = PROCESSING"
    by (simp add: batchStarted_def batchEffect_def reconcile_status startBatch_def at_index_def
        DELIVERABLES_def)
  note t1 = batch_cursor_invariant[where xs = "tl fullBatchOps" and c = batchStarted
      and cam = engineCamera and pts = "[]" and ys = fullBatchOps
      and x = "OpReconcile False 0"]
  note t2 = batch_cursor_invariant[where xs = "tl fullBatchOps" and c = batchDone
      and recording = False and now = 50000]
  from t1 t2 h1 h2 h3 h4 show ?thesis by simp
qed

subsection \<open>stopRecording\<close>

lemma stop_noop: "\<not> recordingInProgress e \<Longrightarrow> stopRecording e = e"
  by (simp add: recordingInProgress_def stopRecording_def split: option.splits)

lemma stop_finalizes:
  "recordingInProgress e \<Longrightarrow>
     \<exists>r. recorderRef e = Some r \<and>
         stopRecording e =
           e\<lparr>recorders := (recorders e)[r := Inactive], pendingStop := pendingStop e @ [r]\<rparr>"
  by (auto simp add: recordingInProgress_def stopRecording_def split: option.splits)

lemma stop_changes: "recordingInProgress e \<Longrightarrow> stopRecording e \<noteq> e"
proof -
  assume "recordingInProgress e"
  then obtain r where
    "stopRecording e = e\<lparr>recorders := (recorders e)[r := Inactive], pendingStop := pendingStop e @ [r]\<rparr>"
    using stop_finalizes by blast
  then have "pendingStop (stopRecording e) = pendingStop e @ [r]" by simp
  then show "stopRecording e \<noteq> e" by (metis append_self_conv not_Cons_self2)
qed

text \<open>
  Claim C8. \<open>stopRecording\<close> changes the engine exactly when the current recorder is
  recording. In that case it makes that recorder inactive and queues its completion, leaving
  \<open>isRecording\<close> set; when the completion is delivered, the file is offered under the
  recorded name with the chunks gathered so far and \<open>isRecording\<close> is cleared. When no
  recording is in progress the engine is left exactly as it was.
\<close>

theorem stopRecording_conditional:
  "(stopRecording e \<noteq> e \<longleftrightarrow> recordingInProgress e) \<and>
   (recordingInProgress e \<longrightarrow>
      (\<exists>r. recorderRef e = Some r \<and>
           stopRecording e =
             e\<lparr>recorders := (recorders e)[r := Inactive], pendingStop := pendingStop e @ [r]\<rparr>) \<and>
      \<not> recordingInProgress (stopRecording e) \<and>
      isRecording (stopRecording e) = isRecording e \<and>
      downloads (stopRecording e) = downloads e) \<and>
   (recordingInProgress e \<and> pendingStop e = [] \<longrightarrow>
      downloads (deliverStop sz (stopRecording e)) =
        downloads e @ [(recordingName e, if sz > 0 then chunks e @ [sz] else chunks e)] \<and>
      \<not> isRecording (deliverStop sz (stopRecording e)) \<and>
      pendingStop (deliverStop sz (stopRecording e)) = []) \<and>
   (\<not> recordingInProgress e \<longrightarrow> stopRecording e = e)"
proof (intro conjI impI)
  show "stopRecording e \<noteq> e \<longleftrightarrow> recordingInProgress e"
    using stop_noop stop_changes by blast
next
  assume "recordingInProgress e"
  then show "\<exists>r. recorderRef e = Some r \<and>
           stopRecording e =
             e\<lparr>recorders := (recorders e)[r := Inactive], pendingStop := pendingStop e @ [r]\<rparr>"
    by (rule stop_finalizes)
next
  assume "recordingInProgress e"
  then show "\<not> recordingInProgress (stopRecording e)"
    by (auto simp add: recordingInProgress_def stopRecording_def at_index_def split: option.splits)
next
  assume "recordingInProgress e"
  then show "isRecording (stopRecording e) = isRecording e"
    by (auto simp add: recordingInProgress_def stopRecording_def split: option.splits)
next
  assume "recordingInProgress e"
  then show "downloads (stopRecording e) = downloads e"
    by (auto simp add: recordingInProgress_def stopRecording_def split: option.splits)
next
  assume a: "recordingInProgress e \<and> pendingStop e = []"
  then obtain r where s: "stopRecording e =
      e\<lparr>recorders := (recorders e)[r := Inactive], pendingStop := pendingStop e @ [r]\<rparr>"
    using stop_finalizes by blast
  show "downloads (deliverStop sz (stopRecording e)) =
        downloads e @ [(recordingName e, if sz > 0 then chunks e @ [sz] else chunks e)]"
    using a by (simp add: s deliverStop_def onstop_def ondataavailable_def)
  show "\<not> isRecording (deliverStop sz (stopRecording e))"
    using a by (simp add: s deliverStop_def onstop_def ondataavailable_def)
  show "pendingStop (deliverStop sz (stopRecording e)) = []"
    using a by (simp add: s deliverStop_def onstop_def ondataavailable_def)
next
  assume "\<not> recordingInProgress e"
  then show "stopRecording e = e" by (rule stop_noop)
qed

theorem stopRecording_conditional_witness:
  "recordingInProgress engineRecording \<and> pendingStop engineRecording = [] \<and>
   stopRecording engineRecording \<noteq> engineRecording \<and>
   recorders (stopRecording engineRecording) = [Inactive] \<and>
   pendingStop (stopRecording engineRecording) = [0] \<and>
   isRecording (stopRecording engineRecording) \<and>
   downloads (deliverStop 4096 (stopRecording engineRecording)) =
     [(''AOB_SEQ01_S01_SH01_PLATE_v001.webm'', [4096])] \<and>
   \<not> isRecording (deliverStop 4096 (stopRecording engineRecording)) \<and>
   \<not> recordingInProgress engine0 \<and> stopRecording engine0 = engine0 \<and>
   \<not> recordingInProgress (stopRecording engineRecording) \<and>
   stopRecording (stopRecording engineRecording) = stopRecording engineRecording"
proof -
  have h1: "recordingInProgress engineRecording" and h2: "pendingStop engineRecording = []"
    and h3: "\<not> recordingInProgress engine0"
    and f: "recorderRef engineRecording = Some 0" "recorders engineRecording = [Recording]"
      "isRecording engineRecording" "downloads engineRecording = []"
      "chunks engineRecording = []"
      "recordingName engineRecording = ''AOB_SEQ01_S01_SH01_PLATE_v001.webm''"
    by (simp_all add: engineRecording_def engine0_def startRecording_def recordingInProgress_def
        at_index_def Let_def)
  note t1 = stopRecording_conditional[of engineRecording 4096]
  note t2 = stopRecording_conditional[of engine0 0]
  from t1 h1 have h4: "\<not> recordingInProgress (stopRecording engineRecording)" by blast
  note t3 = stopRecording_conditional[of "stopRecording engineRecording" 0]
  from t1 t2 t3 h1 h2 h3 h4 f show ?thesis by auto
qed

section \<open>Properties of the shell\<close>

lemma disposals_append [simp]: "disposals (xs @ ys) = disposals xs @ disposals ys"
  by (induction xs rule: disposals.induct) simp_all

lemma updates_append [simp]: "updates (xs @ ys) = updates xs @ updates ys"
  by (induction xs rule: updates.induct) simp_all

lemma logged_fields [simp]:
  "mounted (logged evs s) = mounted s"
  "activeModule (logged evs s) = activeModule s"
  "moduleContext (logged evs s) = moduleContext s"
  "contextRef (logged evs s) = contextRef s"
  "renderedModule (logged evs s) = renderedModule s"
  "renderedContext (logged evs s) = renderedContext s"
  "loopModule (logged evs s) = loopModule s"
  "running (logged evs s) = running s"
  "frameRequested (logged evs s) = frameRequested s"
  "inits (logged evs s) = inits s"
  "world (logged evs s) = world s"
  "trace (logged evs s) = trace s @ evs"
  by (simp_all add: logged_def)

subsection \<open>The render loop\<close>

lemma loopFrame_stopped: "\<not> running s \<Longrightarrow> loopFrame time delta s = s\<lparr>frameRequested := False\<rparr>"
  by (simp add: loopFrame_def)

lemma loopFrame_fields [simp]:
  "mounted (loopFrame time delta s) = mounted s"
  "activeModule (loopFrame time delta s) = activeModule s"
  "contextRef (loopFrame time delta s) = contextRef s"
  "renderedModule (loopFrame time delta s) = renderedModule s"
  "renderedContext (loopFrame time delta s) = renderedContext s"
  "loopModule (loopFrame time delta s) = loopModule s"
  "inits (loopFrame time delta s) = inits s"
  "disposals (trace (loopFrame time delta s)) = disposals (trace s)"
  by (simp_all add: loopFrame_def updateActive_def updateResult_def split: option.splits)

lemma loopFrame_running: "running (loopFrame time delta s) \<Longrightarrow> running s"
  by (simp add: loopFrame_def updateActive_def updateResult_def split: option.splits if_splits)

lemma loopFrame_moduleContext:
  "moduleContext (loopFrame time delta s) = moduleContext s \<or>
   (\<exists>k c c'. contextRef s = Some (k, c) \<and> moduleContext (loopFrame time delta s) = Some (k, c'))"
  by (auto simp add: loopFrame_def updateActive_def updateResult_def split: option.splits)

lemma loopFrame_throws:
  assumes "running s" and "loopModule s = Some m" and "contextRef s = Some (k, c)"
    and "snd (snd (m_update m c time delta (world s)))"
  shows "\<not> running (loopFrame time delta s)"
    and "trace (loopFrame time delta s) = trace s @ [UpdateCalled k, LoopErrorLogged, Rendered]"
  using assms by (simp_all add: loopFrame_def updateActive_def updateResult_def split: option.splits)

subsection \<open>Effects of a render\<close>

lemma commitShell_fields [simp]:
  "mounted (commitShell s) = mounted s"
  "activeModule (commitShell s) = activeModule s"
  "inits (commitShell s) = inits s"
  "disposals (trace (commitShell s)) = disposals (trace s)"
  "renderedModule (commitShell s) = map_option m_id (activeModule s)"
  by (simp_all add: commitShell_def contextEffect_def loopEffect_def)

lemma commitShell_settled:
  assumes "renderedModule s = map_option m_id (activeModule s)"
  shows "commitShell s =
           (if moduleContext s \<noteq> renderedContext s
            then s\<lparr>contextRef := moduleContext s, renderedContext := moduleContext s\<rparr> else s)"
  using assms by (simp add: commitShell_def contextEffect_def loopEffect_def)

lemma commitShell_contextRef:
  "contextRef (commitShell s) = contextRef s \<or> contextRef (commitShell s) = moduleContext s"
  by (simp add: commitShell_def contextEffect_def loopEffect_def)

lemma commitShell_moduleContext:
  "moduleContext (commitShell s) = moduleContext s \<or>
   (\<exists>k c c'. (contextRef s = Some (k, c) \<or> moduleContext s = Some (k, c)) \<and>
             moduleContext (commitShell s) = Some (k, c'))"
proof (cases "map_option m_id (activeModule s) \<noteq> renderedModule s \<and> mounted s")
  case False
  then show ?thesis by (auto simp add: commitShell_def contextEffect_def loopEffect_def)
next
  case True
  define s1 where "s1 = (if moduleContext s \<noteq> renderedContext s
                then s\<lparr>contextRef := moduleContext s, renderedContext := moduleContext s\<rparr>
                else s)"
  define s2 where "s2 = s1\<lparr>renderedModule := map_option m_id (activeModule s1),
                          loopModule := activeModule s1, running := True\<rparr>"
  have c: "commitShell s = loopFrame 0 0 s2"
    using True by (simp add: commitShell_def contextEffect_def loopEffect_def s1_def s2_def)
  have m: "moduleContext s2 = moduleContext s" by (simp add: s2_def s1_def)
  have r: "contextRef s2 = contextRef s \<or> contextRef s2 = moduleContext s"
    by (simp add: s2_def s1_def)
  from loopFrame_moduleContext[of 0 0 s2] m r show ?thesis
    unfolding c by (metis)
qed

subsection \<open>loadModule\<close>

lemma disposePrevious_fields [simp]:
  "mounted (disposePrevious s) = mounted s"
  "activeModule (disposePrevious s) = activeModule s"
  "moduleContext (disposePrevious s) = moduleContext s"
  "contextRef (disposePrevious s) = contextRef s"
  "renderedModule (disposePrevious s) = renderedModule s"
  "renderedContext (disposePrevious s) = renderedContext s"
  "inits (disposePrevious s) = inits s"
  by (simp_all add: disposePrevious_def disposeResult_def split_beta split: option.splits)

lemma disposePrevious_trace:
  "trace (disposePrevious s) =
     trace s @
     (case (activeModule s, moduleContext s) of
        (Some am, Some (k, c)) \<Rightarrow>
          DisposeCalled k # (if snd (m_dispose am c (world s)) then [DisposeErrorLogged] else [])
      | _ \<Rightarrow> [])"
  by (simp add: disposePrevious_def disposeResult_def split_beta split: option.splits)

lemma disposePrevious_world:
  "world (disposePrevious s) =
     (case (activeModule s, moduleContext s) of
        (Some am, Some (k, c)) \<Rightarrow> fst (m_dispose am c (world s))
      | _ \<Rightarrow> world s)"
  by (simp add: disposePrevious_def disposeResult_def split_beta split: option.splits)

lemma loadModule_fields:
  assumes "mounted s"
  shows "mounted (loadModule m s)"
    and "activeModule (loadModule m s) = Some m"
    and "moduleContext (loadModule m s) =
           Some (inits s, fst (m_init m (worldAfterDispose s)))"
    and "contextRef (loadModule m s) = None"
    and "inits (loadModule m s) = inits s + 1"
    and "trace (loadModule m s) =
           trace s @ [ContextInvalidated] @
           (case (activeModule s, moduleContext s) of
              (Some am, Some (k, c)) \<Rightarrow>
                DisposeCalled k # (if snd (m_dispose am c (world s)) then [DisposeErrorLogged] else [])
            | _ \<Rightarrow> []) @
           [SceneReset, InitCalled (inits s)]"
  using assms
  by (simp_all add: loadModule_def initModule_def publishInit_def split_beta disposePrevious_trace disposePrevious_world
      worldAfterDispose_def logged_def split: option.splits)

subsection \<open>Dispose once\<close>

lemma loaded_commitShell:
  assumes "loaded n s"
  shows "loaded n (commitShell s)"
proof -
  have cr: "contextRef (commitShell s) = contextRef s \<or> contextRef (commitShell s) = moduleContext s"
    by (rule commitShell_contextRef)
  have mc: "moduleContext (commitShell s) = moduleContext s \<or>
     (\<exists>k c c'. (contextRef s = Some (k, c) \<or> moduleContext s = Some (k, c)) \<and>
             moduleContext (commitShell s) = Some (k, c'))"
    by (rule commitShell_moduleContext)
  show ?thesis
  proof (cases "n = 0")
    case True
    with assms have z: "moduleContext s = None" "contextRef s = None" "activeModule s = None"
      by (simp_all add: loaded_def)
    from mc z have "moduleContext (commitShell s) = None" by auto
    moreover from cr z have "contextRef (commitShell s) = None" by auto
    ultimately show ?thesis using assms True by (simp add: loaded_def)
  next
    case False
    with assms have m: "map_option fst (moduleContext s) = Some (n - 1)"
      and c: "contextRef s = None \<or> map_option fst (contextRef s) = Some (n - 1)"
      by (simp_all add: loaded_def)
    from mc m c have m': "map_option fst (moduleContext (commitShell s)) = Some (n - 1)"
      by auto
    from cr m c have c': "contextRef (commitShell s) = None \<or>
        map_option fst (contextRef (commitShell s)) = Some (n - 1)"
      by auto
    from m' c' assms False show ?thesis by (simp add: loaded_def)
  qed
qed

lemma loaded_loadModule:
  assumes "loaded n s"
  shows "loaded (Suc n) (loadModule m s)"
proof -
  from assms have mt: "mounted s" and i: "inits s = n" and d: "disposals (trace s) = [0..<n - 1]"
    by (simp_all add: loaded_def)
  note f = loadModule_fields[OF mt, of m]
  have "disposals (trace (loadModule m s)) = [0..<n]"
  proof (cases "n = 0")
    case True
    with assms have "activeModule s = None" by (simp add: loaded_def)
    with d True show ?thesis by (simp add: f(6))
  next
    case False
    with assms obtain am c where a: "activeModule s = Some am" and c: "moduleContext s = Some (n - 1, c)"
      by (auto simp add: loaded_def)
    from False have "[0..<n] = [0..<n - 1] @ [n - 1]"
      by (metis Suc_pred' bot_nat_0.not_eq_extremum upt_Suc_append zero_le)
    with d a c show ?thesis by (simp add: f(6))
  qed
  with f i show ?thesis by (simp add: loaded_def)
qed

lemma loaded_loopFrame:
  assumes "loaded n s"
  shows "loaded n (loopFrame time delta s)"
proof -
  have mc: "moduleContext (loopFrame time delta s) = moduleContext s \<or>
   (\<exists>k c c'. contextRef s = Some (k, c) \<and> moduleContext (loopFrame time delta s) = Some (k, c'))"
    by (rule loopFrame_moduleContext)
  show ?thesis
  proof (cases "n = 0")
    case True
    with assms have "moduleContext s = None" "contextRef s = None" by (simp_all add: loaded_def)
    with mc have "moduleContext (loopFrame time delta s) = None" by auto
    with assms True show ?thesis by (simp add: loaded_def)
  next
    case False
    with assms have m: "map_option fst (moduleContext s) = Some (n - 1)"
      and c: "contextRef s = None \<or> map_option fst (contextRef s) = Some (n - 1)"
      by (simp_all add: loaded_def)
    from mc m c have "map_option fst (moduleContext (loopFrame time delta s)) = Some (n - 1)"
      by auto
    with assms False show ?thesis by (simp add: loaded_def)
  qed
qed

lemma loaded_step:
  assumes "loaded n s" and "routine x"
  shows "loaded (if is_Load x then Suc n else n) (shell_step x s)"
proof (cases x)
  case (Load m)
  then show ?thesis using loaded_commitShell[OF loaded_loadModule[OF assms(1), of m]] by simp
next
  case (LoadInitThrows w)
  with assms(2) show ?thesis by simp
next
  case (Frame time delta)
  then show ?thesis
    using loaded_commitShell[OF loaded_loopFrame[OF assms(1), of time delta]] by simp
next
  case (Publish h)
  with assms(2) show ?thesis by simp
qed

lemma loaded_run:
  "loaded n s \<Longrightarrow> list_all routine xs \<Longrightarrow>
   loaded (n + length (filter is_Load xs)) (shell_run xs s)"
proof (induction xs arbitrary: n s)
  case Nil
  then show ?case by simp
next
  case (Cons x xs)
  from Cons.prems(2) have r: "routine x" and rs: "list_all routine xs" by simp_all
  from loaded_step[OF Cons.prems(1) r]
  have "loaded (if is_Load x then Suc n else n) (shell_step x s)" .
  from Cons.IH[OF this rs] show ?case by (cases "is_Load x") simp_all
qed

lemma loaded_mountedShell: "loaded 0 (mountedShell w)"
  by (simp add: loaded_def mountedShell_def)

text \<open>
  In undisturbed use the shell disposes of every context once. Start from the mounted shell
  and let the module buttons be clicked N times, every \<open>init\<close> returning, with frames in
  between and nothing else calling \<open>onUpdate\<close>. Then \<open>init\<close> has been called N times and
  \<open>dispose\<close> N - 1 times: once on each of the contexts 0, ..., N - 2, in that order, and
  not on the context N - 1 that is active at the end.
\<close>

lemma routine_dispose_once:
  assumes "list_all routine ops"
  shows "inits (shell_run ops (mountedShell w)) = length (filter is_Load ops) \<and>
   disposals (trace (shell_run ops (mountedShell w))) = [0..<length (filter is_Load ops) - 1] \<and>
   distinct (disposals (trace (shell_run ops (mountedShell w))))"
proof -
  have l: "loaded (length (filter is_Load ops)) (shell_run ops (mountedShell w))"
    using loaded_run[OF loaded_mountedShell assms, of w] by simp
  then have d: "disposals (trace (shell_run ops (mountedShell w))) = [0..<length (filter is_Load ops) - 1]"
    by (simp add: loaded_def)
  from l d show ?thesis by (auto simp add: loaded_def)
qed

lemmas shell_defs =
  mountedShell_def loadModule_def initModule_def publishInit_def disposePrevious_def
  disposeResult_def commitShell_def contextEffect_def loopEffect_def loopFrame_def
  updateActive_def updateResult_def logged_def loadModuleInitThrows_def
  setModuleContext_def plainModule_def fragileModule_def Let_def split_beta

subsection \<open>Fail-stop\<close>

lemma stopped_frame:
  assumes "\<not> running s" and "loopCurrent s"
  shows "\<not> running (shell_step (Frame time delta) s)"
    and "loopCurrent (shell_step (Frame time delta) s)"
    and "trace (shell_step (Frame time delta) s) = trace s"
    and "\<not> frameRequested (shell_step (Frame time delta) s)"
proof -
  have l: "loopFrame time delta s = s\<lparr>frameRequested := False\<rparr>"
    using assms(1) by (rule loopFrame_stopped)
  have r: "renderedModule (s\<lparr>frameRequested := False\<rparr>) =
             map_option m_id (activeModule (s\<lparr>frameRequested := False\<rparr>))"
    using assms(2) by (simp add: loopCurrent_def)
  note c = commitShell_settled[OF r]
  show "\<not> running (shell_step (Frame time delta) s)" using assms(1) by (simp add: l c)
  show "loopCurrent (shell_step (Frame time delta) s)" using assms(2) by (simp add: l c loopCurrent_def)
  show "trace (shell_step (Frame time delta) s) = trace s" by (simp add: l c)
  show "\<not> frameRequested (shell_step (Frame time delta) s)" by (simp add: l c)
qed

lemma stopped_frames:
  assumes "\<not> running s" and "loopCurrent s"
  shows "trace (shell_run (map (\<lambda>(t, d). Frame t d) fs) s) = trace s \<and>
         \<not> running (shell_run (map (\<lambda>(t, d). Frame t d) fs) s)"
  using assms
proof (induction fs arbitrary: s)
  case Nil
  then show ?case by simp
next
  case (Cons f fs)
  obtain t d where f: "f = (t, d)" by (cases f)
  note st = stopped_frame[OF Cons.prems, of t d]
  from Cons.IH[OF st(1) st(2)] st(3) show ?case by (simp add: f)
qed

text \<open>
  Claim C6 (fail-stop). When \<open>update\<close> throws in a frame of the running loop, the error is
  logged after the call, the frame is still drawn and the loop's flag is cleared. A stopped
  loop's next callback returns at once without requesting another frame, so over any number
  of further frames \<open>update\<close> is not called again; only a render with another active
  module creates a new loop. When \<open>dispose\<close> throws during a switch, the error is logged and
  the switch goes on: the scene is reset, \<open>init\<close> is called and the new module and
  context are published.
\<close>

theorem render_loop_fail_stop:
  "(running s \<and> loopModule s = Some m \<and> contextRef s = Some (k, c) \<and>
    snd (snd (m_update m c time delta (world s))) \<longrightarrow>
      \<not> running (loopFrame time delta s) \<and>
      trace (loopFrame time delta s) = trace s @ [UpdateCalled k, LoopErrorLogged, Rendered]) \<and>
   (\<not> running s \<longrightarrow> loopFrame time delta s = s\<lparr>frameRequested := False\<rparr>) \<and>
   (\<not> running s \<and> loopCurrent s \<longrightarrow>
      trace (shell_run (map (\<lambda>(t, d). Frame t d) fs) s) = trace s \<and>
      \<not> running (shell_run (map (\<lambda>(t, d). Frame t d) fs) s)) \<and>
   (mounted s \<and> \<not> loopCurrent s \<longrightarrow>
      loopModule (commitShell s) = activeModule s \<and> frameRequested (commitShell s)) \<and>
   (mounted s \<and> activeModule s = Some am \<and> moduleContext s = Some (k, c) \<and>
    snd (m_dispose am c (world s)) \<longrightarrow>
      trace (loadModule n s) =
        trace s @ [ContextInvalidated, DisposeCalled k, DisposeErrorLogged, SceneReset,
                   InitCalled (inits s)] \<and>
      activeModule (loadModule n s) = Some n \<and>
      moduleContext (loadModule n s) =
        Some (inits s, fst (m_init n (fst (m_dispose am c (world s))))))"
proof (intro conjI impI)
  assume a: "running s \<and> loopModule s = Some m \<and> contextRef s = Some (k, c) \<and>
    snd (snd (m_update m c time delta (world s)))"
  then show "\<not> running (loopFrame time delta s)"
    using loopFrame_throws(1)[of s m k c time delta] by simp
  from a show "trace (loopFrame time delta s) = trace s @ [UpdateCalled k, LoopErrorLogged, Rendered]"
    using loopFrame_throws(2)[of s m k c time delta] by simp
next
  assume "\<not> running s"
  then show "loopFrame time delta s = s\<lparr>frameRequested := False\<rparr>" by (rule loopFrame_stopped)
next
  assume a: "\<not> running s \<and> loopCurrent s"
  then show "trace (shell_run (map (\<lambda>(t, d). Frame t d) fs) s) = trace s"
    using stopped_frames[of s fs] by simp
  from a show "\<not> running (shell_run (map (\<lambda>(t, d). Frame t d) fs) s)"
    using stopped_frames[of s fs] by simp
next
  assume a: "mounted s \<and> \<not> loopCurrent s"
  then show "loopModule (commitShell s) = activeModule s"
    by (auto simp add: commitShell_def contextEffect_def loopEffect_def loopCurrent_def)
  from a show "frameRequested (commitShell s)"
    by (auto simp add: commitShell_def contextEffect_def loopEffect_def loopCurrent_def
        loopFrame_def updateActive_def updateResult_def logged_def split: option.splits)
next
  assume a: "mounted s \<and> activeModule s = Some am \<and> moduleContext s = Some (k, c) \<and>
    snd (m_dispose am c (world s))"
  then have mt: "mounted s" by simp
  note f = loadModule_fields[OF mt, of n]
  from a show "trace (loadModule n s) =
        trace s @ [ContextInvalidated, DisposeCalled k, DisposeErrorLogged, SceneReset,
                   InitCalled (inits s)]"
    by (simp add: f(6))
  show "activeModule (loadModule n s) = Some n" by (rule f(2))
  from a show "moduleContext (loadModule n s) =
        Some (inits s, fst (m_init n (fst (m_dispose am c (world s)))))"
    by (simp add: f(3) worldAfterDispose_def)
qed

lemma fragileLoaded_eval:
  "running fragileLoaded" "loopModule fragileLoaded = Some fragileModule"
  "contextRef fragileLoaded = Some (0, 0)" "world fragileLoaded = 1"
  "mounted fragileLoaded" "activeModule fragileLoaded = Some fragileModule"
  "moduleContext fragileLoaded = Some (0, 0)" "inits fragileLoaded = 1"
  "trace fragileLoaded = [ContextInvalidated, SceneReset, InitCalled 0, UpdateCalled 0, Rendered]"
  by (simp_all add: fragileLoaded_def shell_defs)

lemma fragileCrashed_eval:
  "\<not> running fragileCrashed" "loopCurrent fragileCrashed"
  "trace fragileCrashed = trace fragileLoaded @ [UpdateCalled 0, LoopErrorLogged, Rendered]"
  by (simp_all add: fragileCrashed_def fragileLoaded_def loopCurrent_def shell_defs)

theorem render_loop_fail_stop_witness:
  "running fragileLoaded \<and> loopModule fragileLoaded = Some fragileModule \<and>
   contextRef fragileLoaded = Some (0, 0) \<and>
   snd (snd (m_update fragileModule 0 6 1 (world fragileLoaded))) \<and>
   \<not> running (loopFrame 6 1 fragileLoaded) \<and>
   trace (loopFrame 6 1 fragileLoaded) =
     [ContextInvalidated, SceneReset, InitCalled 0, UpdateCalled 0, Rendered,
      UpdateCalled 0, LoopErrorLogged, Rendered] \<and>
   \<not> running fragileCrashed \<and> loopCurrent fragileCrashed \<and>
   loopFrame 7 1 fragileCrashed = fragileCrashed\<lparr>frameRequested := False\<rparr> \<and>
   trace (shell_run (map (\<lambda>(t, d). Frame t d) [(7, 1), (8, 1), (9, 1)]) fragileCrashed) =
     trace fragileCrashed \<and>
   mounted (loadModule plainModule fragileCrashed) \<and>
   \<not> loopCurrent (loadModule plainModule fragileCrashed) \<and>
   frameRequested (commitShell (loadModule plainModule fragileCrashed)) \<and>
   mounted fragileLoaded \<and> activeModule fragileLoaded = Some fragileModule \<and>
   moduleContext fragileLoaded = Some (0, 0) \<and>
   snd (m_dispose fragileModule 0 (world fragileLoaded)) \<and>
   trace (loadModule plainModule fragileLoaded) =
     trace fragileLoaded @
     [ContextInvalidated, DisposeCalled 0, DisposeErrorLogged, SceneReset, InitCalled 1] \<and>
   activeModule (loadModule plainModule fragileLoaded) = Some plainModule \<and>
   moduleContext (loadModule plainModule fragileLoaded) = Some (1, 1)"
proof -
  have h1: "snd (snd (m_update fragileModule 0 6 1 (world fragileLoaded)))"
    by (simp add: fragileModule_def)
  have h2: "snd (m_dispose fragileModule 0 (world fragileLoaded))"
    by (simp add: fragileModule_def)
  have h3: "mounted (loadModule plainModule fragileCrashed)"
    and h4: "\<not> loopCurrent (loadModule plainModule fragileCrashed)"
    by (simp_all add: fragileCrashed_def fragileLoaded_def loopCurrent_def shell_defs)
  have i: "fst (m_init plainModule (fst (m_dispose fragileModule 0 (world fragileLoaded)))) = 1"
    by (simp add: fragileLoaded_eval plainModule_def fragileModule_def)
  note t1 = render_loop_fail_stop[where s = fragileLoaded and m = fragileModule and k = 0
      and c = 0 and time = 6 and delta = 1 and am = fragileModule and n = plainModule]
  note t2 = render_loop_fail_stop[where s = fragileCrashed and time = 7 and delta = 1
      and fs = "[(7, 1), (8, 1), (9, 1)]"]
  note t3 = render_loop_fail_stop[where s = "loadModule plainModule fragileCrashed"]
  note e = fragileLoaded_eval
  note e' = fragileCrashed_eval
  from t1 e(1,2,3) h1 have w1: "\<not> running (loopFrame 6 1 fragileLoaded)"
    and w2: "trace (loopFrame 6 1 fragileLoaded) =
               trace fragileLoaded @ [UpdateCalled 0, LoopErrorLogged, Rendered]"
    by blast+
  from w2 have w2': "trace (loopFrame 6 1 fragileLoaded) =
     [ContextInvalidated, SceneReset, InitCalled 0, UpdateCalled 0, Rendered,
      UpdateCalled 0, LoopErrorLogged, Rendered]"
    by (simp add: e(9))
  from t2 e'(1) have w3: "loopFrame 7 1 fragileCrashed = fragileCrashed\<lparr>frameRequested := False\<rparr>"
    by blast
  from t2 e'(1,2) have w4:
    "trace (shell_run (map (\<lambda>(t, d). Frame t d) [(7, 1), (8, 1), (9, 1)]) fragileCrashed) =
     trace fragileCrashed"
    by blast
  from t3 h3 h4 have w5: "frameRequested (commitShell (loadModule plainModule fragileCrashed))"
    by blast
  from t1 e(5,6,7) h2 have w6: "trace (loadModule plainModule fragileLoaded) =
     trace fragileLoaded @
     [ContextInvalidated, DisposeCalled 0, DisposeErrorLogged, SceneReset, InitCalled (inits fragileLoaded)]"
    and w7: "activeModule (loadModule plainModule fragileLoaded) = Some plainModule"
    and w8: "moduleContext (loadModule plainModule fragileLoaded) =
        Some (inits fragileLoaded, fst (m_init plainModule (fst (m_dispose fragileModule 0 (world fragileLoaded)))))"
    by blast+
  from w6 have w6': "trace (loadModule plainModule fragileLoaded) =
     trace fragileLoaded @
     [ContextInvalidated, DisposeCalled 0, DisposeErrorLogged, SceneReset, InitCalled 1]"
    by (simp add: e(8))
  from w8 have w8': "moduleContext (loadModule plainModule fragileLoaded) = Some (1, 1)"
    by (simp add: e(8) i)
  from e(1,2,3,5,6,7) e'(1,2) h1 h2 h3 h4 w1 w2' w3 w4 w5 w6' w7 w8'
  show ?thesis by blast
qed

section \<open>The AOB module running in the shell\<close>

lemma settle_unfold:
  "settle n st s =
     (if renderState s = st then Some s
      else if n = 0 then None else settle (n - 1) (renderState s) (renderOnce s))"
  by (cases n) simp_all

text \<open>The equations that evaluate one event on a concrete state.\<close>

lemmas system_defs =
  viewObject_def viewContext_def storeObject_def storeContext_def copyObject_def
  allocContext_def aobInit_def publishSignal_def afterUpdate_def aobUpdate_def aobDispose_def
  AOBVoidModule_def sysWorld_def withWorld_def called_def publishCopy_def applyUi_def
  setOnSignal_def cleanupSignal_def signalEffect_def depsOf_def reconcileEffect_def
  uiRender_def shellEffects_def renderState_def renderOnce_def
  freshArray_def clickStartBatch_def timerFires_def recorderStopped_def
  timePasses_def world0_def bootSystem_def engine0_def
  startRecording_def stopRecording_def ondataavailable_def onstop_def deliverStop_def
  sys_step_def rerender_def NESTED_UPDATE_LIMIT_def settle_unfold
  init_def engineCamera_def createParticleSystem_def SHIMMER_def camera_lookAt_def
  startBatch_def batchEffect_def reconcile_def at_index_def advance_def metadataPayload_def
  DELIVERABLES_def SHOT_SPECS_def setupJob_def update_def animateParticles_def playback_def
  interpolate_def truthy_def setOpacity_def set_rotation_y_def Let_def
  mountedShell_def loadModule_def initModule_def publishInit_def disposePrevious_def
  disposeResult_def commitShell_def contextEffect_def loopEffect_def loopFrame_def
  updateActive_def updateResult_def logged_def

lemma sys_run_step:
  assumes "sys_step pts e s = Some s1" and "\<exists>f. sys_run pts es s1 = Some f \<and> Q f"
  shows "\<exists>f. sys_run pts (e # es) s = Some f \<and> Q f"
  using assms by simp

text \<open>
  Claim C4 (invalidate, then dispose). \<open>loadModule\<close> does clear \<open>contextRef\<close> before
  it calls \<open>dispose\<close> (\<open>loadModule_fields\<close>), but that does not keep the render loop
  off a disposed context. In the scenario \<open>reloadDuringBatch\<close> the module is loaded again
  while the timer that the reconciliation effect set when it stopped the recording is still
  pending. The shell disposes of context 0 and publishes context 1; when the timer fires,
  its \<open>onUpdate\<close> publishes a copy of context 0 again, the effect of line 40 stores it in
  \<open>contextRef\<close>, the reconciliation effect resumes the old batch with the next plate, and
  the next frame calls \<open>update\<close> on context 0 after its disposal.
\<close>

theorem stale_context_updated:
  "\<exists>f. sys_run pts reloadDuringBatch bootSystem = Some f \<and>
       trace (shell f) =
         [ContextInvalidated, SceneReset, InitCalled 0, UpdateCalled 0, Rendered,
          UpdateCalled 0, Rendered, UpdateCalled 0, Rendered, UpdateCalled 0, Rendered,
          ContextInvalidated, DisposeCalled 0, SceneReset, InitCalled 1,
          UpdateCalled 1, Rendered, UpdateCalled 0, Rendered] \<and>
       map_option fst (contextRef (shell f)) = Some 0 \<and>
       map_option fst (moduleContext (shell f)) = Some 0 \<and>
       inits (shell f) = 2 \<and>
       batches (sysWorld f) =
         [\<lparr>active = True, index = 1, status = PROCESSING\<rparr>,
          \<lparr>active = False, index = 0, status = IDLE\<rparr>] \<and>
       map callLabel (calls (sysWorld f)) =
         [(''setCameraMode'', []),
          (''startRecording'', ''AOB_SEQ01_S01_SH01_PLATE_v001.webm''),
          (''stopRecording'', []),
          (''startRecording'', ''AOB_SEQ01_S01_SH02_PLATE_v001.webm'')]"
  apply (simp only: reloadDuringBatch_def tick_def ticks_def list.map concat.simps append.simps)
  apply (rule sys_run_step, simp add: system_defs cong: let_weak_cong)+
  apply (simp add: sysWorld_def)
  done

text \<open>
  Claim C5 (dispose once). The shell does not keep to it: \<open>loadModule\<close> disposes of
  whatever \<open>moduleContext\<close> holds, and nothing clears \<open>moduleContext\<close> after a
  disposal, so a context that stays or comes back there is disposed of again.

  First, \<open>failedLoad\<close>: the module is loaded, then a load fails because \<open>init\<close> throws
  on line 117, outside any \<open>try\<close>, after context 0 was disposed of on line 104;
  \<open>moduleContext\<close> still holds context 0, and the next load disposes of it a second time.
  Three clicks make two disposals, both of context 0.

  Second, \<open>reloadTwice\<close>: the module is loaded again while the timer of the reconciliation
  effect is pending, which disposes of context 0 and publishes context 1; the timer then
  publishes a copy of context 0; the third load disposes of context 0 again and publishes
  context 2. Context 0 has been disposed of twice and context 1, which is not the final one,
  never.
\<close>

theorem context_disposed_twice:
  "trace (shell_run failedLoad (mountedShell 0)) =
     [ContextInvalidated, SceneReset, InitCalled 0, UpdateCalled 0, Rendered,
      UpdateCalled 0, Rendered,
      ContextInvalidated, DisposeCalled 0, SceneReset, InitFailed,
      ContextInvalidated, DisposeCalled 0, SceneReset, InitCalled 1] \<and>
   disposals (trace (shell_run failedLoad (mountedShell 0))) = [0, 0] \<and>
   (\<exists>f. sys_run pts reloadTwice bootSystem = Some f \<and>
        trace (shell f) =
          [ContextInvalidated, SceneReset, InitCalled 0, UpdateCalled 0, Rendered,
           UpdateCalled 0, Rendered, UpdateCalled 0, Rendered, UpdateCalled 0, Rendered,
           ContextInvalidated, DisposeCalled 0, SceneReset, InitCalled 1,
           UpdateCalled 1, Rendered, UpdateCalled 0, Rendered,
           ContextInvalidated, DisposeCalled 0, SceneReset, InitCalled 2] \<and>
        disposals (trace (shell f)) = [0, 0] \<and>
        inits (shell f) = 3 \<and>
        map_option fst (moduleContext (shell f)) = Some 2)"
proof -
  have a: "trace (shell_run failedLoad (mountedShell 0)) =
     [ContextInvalidated, SceneReset, InitCalled 0, UpdateCalled 0, Rendered,
      UpdateCalled 0, Rendered,
      ContextInvalidated, DisposeCalled 0, SceneReset, InitFailed,
      ContextInvalidated, DisposeCalled 0, SceneReset, InitCalled 1]"
    by (simp add: failedLoad_def shell_defs)
  have b: "disposals (trace (shell_run failedLoad (mountedShell 0))) = [0, 0]"
    by (simp add: a)
  have c: "\<exists>f. sys_run pts reloadTwice bootSystem = Some f \<and>
        trace (shell f) =
          [ContextInvalidated, SceneReset, InitCalled 0, UpdateCalled 0, Rendered,
           UpdateCalled 0, Rendered, UpdateCalled 0, Rendered, UpdateCalled 0, Rendered,
           ContextInvalidated, DisposeCalled 0, SceneReset, InitCalled 1,
           UpdateCalled 1, Rendered, UpdateCalled 0, Rendered,
           ContextInvalidated, DisposeCalled 0, SceneReset, InitCalled 2] \<and>
        disposals (trace (shell f)) = [0, 0] \<and>
        inits (shell f) = 3 \<and>
        map_option fst (moduleContext (shell f)) = Some 2"
    apply (simp only: reloadTwice_def reloadDuringBatch_def tick_def ticks_def list.map
        concat.simps append.simps)
    apply (rule sys_run_step, simp add: system_defs cong: let_weak_cong)+
    apply (simp add: sysWorld_def)
    done
  from a b c show ?thesis by blast
qed

text \<open>
  Claim C1 (full batch). The batch does not always run as claimed. In \<open>lateCompletion\<close>
  the recorder's completion arrives 100 ms after the 500 ms timer that the reconciliation
  effect set when it stopped the recording. When the timer fires, \<open>isRecording\<close> is still
  true and nothing is playing, so the effect takes the same branch again (line 212): it
  calls \<open>stopRecording\<close>, which does nothing, and advances the cursor past a job that was
  never started. The run ends with status \<open>COMPLETE\<close> and the cursor at 6, but with two
  recordings instead of four: the plate of shot 2 and the VFX element were skipped, and
  \<open>stopRecording\<close> was called four times for two \<open>startRecording\<close>.
\<close>

theorem late_completion_skips_jobs:
  "\<exists>f. sys_run pts lateCompletion bootSystem = Some f \<and>
       batches (sysWorld f) = [\<lparr>active = False, index = 6, status = COMPLETE\<rparr>] \<and>
       map callLabel (calls (sysWorld f)) =
         [(''setCameraMode'', []),
          (''startRecording'', ''AOB_SEQ01_S01_SH01_PLATE_v001.webm''),
          (''stopRecording'', []), (''stopRecording'', []),
          (''startRecording'', ''AOB_SEQ01_S01_SH03_PLATE_v001.webm''),
          (''stopRecording'', []), (''stopRecording'', []),
          (''saveJSON'', ''AOB_SEQ01_CAM_DATA.json''),
          (''saveJSON'', ''AOB_SEQ01_PARTICLES.json'')] \<and>
       map fst (downloads (engine (sysWorld f))) =
         [''AOB_SEQ01_S01_SH01_PLATE_v001.webm'', ''AOB_SEQ01_S01_SH03_PLATE_v001.webm''] \<and>
       \<not> isRecording (engine (sysWorld f)) \<and> timers f = []"
  apply (simp only: lateCompletion_def tick_def ticks_def list.map concat.simps append.simps)
  apply (rule sys_run_step, simp add: system_defs cong: let_weak_cong)+
  apply (simp add: sysWorld_def)
  done

text \<open>
  With a recorder that completes at once the batch runs as intended. The operator loads the
  module and presses START; then simulated time advances for a minute in steps of two
  seconds, each step delivering the pending recorder completion, then the due timer, then a
  frame. The run ends with the batch inactive, its status \<open>COMPLETE\<close> and its cursor at
  6, and the engine calls are, job by job in the order of the deliverable list, one
  \<open>startRecording\<close>/\<open>stopRecording\<close> pair for each of the three plates and the VFX
  element and one \<open>saveJSON\<close> for each of the two metadata jobs.
\<close>

lemma prompt_completion_batch:
  "\<exists>f. sys_run pts fullBatch bootSystem = Some f \<and>
       batches (sysWorld f) = [\<lparr>active = False, index = 6, status = COMPLETE\<rparr>] \<and>
       map_option (\<lambda>h. batch (viewContext (sysWorld f) (snd h))) (moduleContext (shell f)) =
         Some \<lparr>active = False, index = 6, status = COMPLETE\<rparr> \<and>
       map callLabel (calls (sysWorld f)) =
         (''setCameraMode'', []) # concat (map expectedCalls DELIVERABLES) \<and>
       map callLabel (calls (sysWorld f)) =
         [(''setCameraMode'', []),
          (''startRecording'', ''AOB_SEQ01_S01_SH01_PLATE_v001.webm''), (''stopRecording'', []),
          (''startRecording'', ''AOB_SEQ01_S01_SH02_PLATE_v001.webm''), (''stopRecording'', []),
          (''startRecording'', ''AOB_SEQ01_S01_SH03_PLATE_v001.webm''), (''stopRecording'', []),
          (''startRecording'', ''AOB_PTC_SHIMMER_01_v001.webm''), (''stopRecording'', []),
          (''saveJSON'', ''AOB_SEQ01_CAM_DATA.json''),
          (''saveJSON'', ''AOB_SEQ01_PARTICLES.json'')] \<and>
       map fst (downloads (engine (sysWorld f))) =
         [''AOB_SEQ01_S01_SH01_PLATE_v001.webm'', ''AOB_SEQ01_S01_SH02_PLATE_v001.webm'',
          ''AOB_SEQ01_S01_SH03_PLATE_v001.webm'', ''AOB_PTC_SHIMMER_01_v001.webm''] \<and>
       \<not> isRecording (engine (sysWorld f)) \<and> timers f = []"
  apply (simp only: fullBatch_def simulatedTime_def tick_def ticks_def list.map concat.simps
      append.simps)
  apply (rule sys_run_step, simp add: system_defs cong: let_weak_cong)+
  apply (simp add: sysWorld_def viewContext_def viewObject_def expectedCalls_def DELIVERABLES_def)
  done

end
